theory Spec2Isabelle
  imports Main "HOL-Library.Word"
begin

section \<open>The bot deployment operation (deploy.ts)\<close>

subsection \<open>Values exchanged with the Lambda service\<close>

text \<open>
  A JavaScript value that may be \<^verbatim>\<open>undefined\<close> is an \<open>option\<close>, with \<open>None\<close>
  for \<^verbatim>\<open>undefined\<close>. A thrown value is an \<open>error\<close>: either the \<^verbatim>\<open>TypeError\<close> that
  the engine raises when a property of \<^verbatim>\<open>undefined\<close> is read, or whatever a collaborator
  (the service client, the zip library) threw, kept with its \<^verbatim>\<open>name\<close> and \<^verbatim>\<open>message\<close>.
\<close>

datatype error = TypeError | Thrown string string

fun error_name :: "error \<Rightarrow> string" where
  "error_name TypeError = ''TypeError''"
| "error_name (Thrown n m) = n"

type_synonym Uint8Array = "8 word list"

datatype PackageType = Image | Zip

text \<open>The fields of the service's responses that the code reads.\<close>

record Layer =
  Arn :: "string option"

record FunctionConfiguration =
  FunctionName :: "string option"
  Runtime :: "string option"
  Handler :: "string option"
  Layers :: "Layer list option"

record GetFunctionCommandOutput =
  Configuration :: "FunctionConfiguration option"

record LayerVersionsListItem =
  LayerVersionArn :: "string option"

record ListLayerVersionsCommandOutput =
  LayerVersions :: "LayerVersionsListItem list option"

text \<open>
  The inputs of the six commands. A field name that several commands share carries the
  initials of its command. \<open>Layers\<close> holds the resolved layer version as the code
  passes it, which is \<^verbatim>\<open>undefined\<close> when the resolver returned that.
\<close>

record GetFunctionCommandInput =
  gf_FunctionName :: string

record ListLayerVersionsCommandInput =
  LayerName :: string
  MaxItems :: nat

record GetFunctionConfigurationCommandInput =
  gfc_FunctionName :: string

record FunctionCode =
  ZipFile :: Uint8Array

record CreateFunctionCommandInput =
  cf_FunctionName :: string
  cf_Role :: string
  cf_Runtime :: string
  cf_Handler :: string
  cf_PackageType :: PackageType
  cf_Layers :: "string option list"
  cf_Code :: FunctionCode
  cf_Publish :: bool
  cf_Timeout :: nat

record UpdateFunctionConfigurationCommandInput =
  ufc_FunctionName :: string
  ufc_Role :: string
  ufc_Runtime :: string
  ufc_Handler :: string
  ufc_Layers :: "string option list"
  ufc_Timeout :: nat

record UpdateFunctionCodeCommandInput =
  ucc_FunctionName :: string
  ucc_ZipFile :: Uint8Array
  ucc_Publish :: bool

datatype command =
    GetFunctionCommand GetFunctionCommandInput
  | ListLayerVersionsCommand ListLayerVersionsCommandInput
  | GetFunctionConfigurationCommand GetFunctionConfigurationCommandInput
  | CreateFunctionCommand CreateFunctionCommandInput
  | UpdateFunctionConfigurationCommand UpdateFunctionConfigurationCommandInput
  | UpdateFunctionCodeCommand UpdateFunctionCodeCommandInput

subsection \<open>The service client and the trace of requests\<close>

text \<open>
  \<^verbatim>\<open>LambdaClient\<close> is outside the repository. It is a parameter: for each command,
  a function from the input and the state \<open>'w\<close> of the remote platform to the
  response (or the error thrown) and the new state. Nothing is assumed about it.
\<close>

record 'w LambdaClient =
  onGetFunction ::
    "GetFunctionCommandInput \<Rightarrow> 'w \<Rightarrow> (error + GetFunctionCommandOutput) \<times> 'w"
  onListLayerVersions ::
    "ListLayerVersionsCommandInput \<Rightarrow> 'w \<Rightarrow> (error + ListLayerVersionsCommandOutput) \<times> 'w"
  onGetFunctionConfiguration ::
    "GetFunctionConfigurationCommandInput \<Rightarrow> 'w \<Rightarrow> (error + FunctionConfiguration) \<times> 'w"
  onCreateFunction ::
    "CreateFunctionCommandInput \<Rightarrow> 'w \<Rightarrow> (error + FunctionConfiguration) \<times> 'w"
  onUpdateFunctionConfiguration ::
    "UpdateFunctionConfigurationCommandInput \<Rightarrow> 'w \<Rightarrow> (error + FunctionConfiguration) \<times> 'w"
  onUpdateFunctionCode ::
    "UpdateFunctionCodeCommandInput \<Rightarrow> 'w \<Rightarrow> (error + FunctionConfiguration) \<times> 'w"

text \<open>
  A run carries the state of the platform and the requests issued so far, oldest first,
  each with the error it was answered with (\<open>None\<close> when it was acknowledged). An
  \<^verbatim>\<open>async\<close> function is a function from the run so far to its result and the run after.
\<close>

type_synonym event = "command \<times> error option"

type_synonym 'w run = "'w \<times> event list"

type_synonym ('w, 'a) task = "'w run \<Rightarrow> (error + 'a) \<times> 'w run"

definition return :: "'a \<Rightarrow> ('w, 'a) task" where
  "return a s = (Inr a, s)"

definition throw :: "error \<Rightarrow> ('w, 'a) task" where
  "throw e s = (Inl e, s)"

text \<open>\<^verbatim>\<open>const x = await m; f(x)\<close>: a rejected promise ends the function.\<close>

definition await :: "('w, 'a) task \<Rightarrow> ('a \<Rightarrow> ('w, 'b) task) \<Rightarrow> ('w, 'b) task" where
  "await m f s = (case m s of (Inl e, s') \<Rightarrow> (Inl e, s') | (Inr a, s') \<Rightarrow> f a s')"

text \<open>\<^verbatim>\<open>try { m } catch (err) { h(err) }\<close>\<close>

definition try_catch :: "('w, 'a) task \<Rightarrow> (error \<Rightarrow> ('w, 'a) task) \<Rightarrow> ('w, 'a) task" where
  "try_catch m h s = (case m s of (Inl e, s') \<Rightarrow> h e s' | (Inr a, s') \<Rightarrow> (Inr a, s'))"

fun outcome :: "error + 'a \<Rightarrow> error option" where
  "outcome (Inl e) = Some e"
| "outcome (Inr a) = None"

text \<open>
  \<^verbatim>\<open>client.send(new C(input))\<close>: the client answers, and the request and its outcome
  are appended to the trace.
\<close>

definition send ::
  "('i \<Rightarrow> 'w \<Rightarrow> (error + 'o) \<times> 'w) \<Rightarrow> ('i \<Rightarrow> command) \<Rightarrow> 'i \<Rightarrow> ('w, 'o) task" where
  "send handler mk input s =
     (case handler input (fst s) of
        (r, w') \<Rightarrow> (r, (w', snd s @ [(mk input, outcome r)])))"

subsection \<open>Constants and configuration\<close>

definition LAMBDA_RUNTIME :: string where
  "LAMBDA_RUNTIME = ''nodejs16.x''"

definition LAMBDA_HANDLER :: string where
  "LAMBDA_HANDLER = ''index.handler''"

definition WRAPPER_CODE :: string where
  \<open>WRAPPER_CODE =
     ''const { Hl7Message, MedplumClient } = require("@medplum/core");\<newline>'' @
     ''const fetch = require("node-fetch");\<newline>'' @
     ''const userCode = require("./user.js");\<newline>'' @
     ''\<newline>'' @
     ''exports.handler = async (event, context) => {\<newline>'' @
     ''  const { accessToken, input, contentType } = event;\<newline>'' @
     ''  const medplum = new MedplumClient({ fetch });\<newline>'' @
     ''  medplum.setAccessToken(accessToken);\<newline>'' @
     ''  try {\<newline>'' @
     ''    return await userCode.handler(medplum, {\<newline>'' @
     ''      input:\<newline>'' @
     ''        contentType === "x-application/hl7-v2+er7"\<newline>'' @
     ''          ? Hl7Message.parse(input)\<newline>'' @
     ''          : input,\<newline>'' @
     ''      contentType,\<newline>'' @
     ''    });\<newline>'' @
     ''  } catch (err) {\<newline>'' @
     ''    if (err instanceof Error) {\<newline>'' @
     ''      console.log("Unhandled error: " + err.message + "'' @ [CHR 0x5C] @
       ''n" + err.stack);\<newline>'' @
     ''    } else {\<newline>'' @
     ''      console.log("Unhandled error: " + err);\<newline>'' @
     ''    }\<newline>'' @
     ''    throw err;\<newline>'' @
     ''  }\<newline>'' @
     ''};\<newline>''\<close>

text \<open>
  \<^verbatim>\<open>getConfig()\<close> is defined outside the files at hand; the two settings read from
  it are parameters.
\<close>

record config =
  botLambdaRoleArn :: string
  botLambdaLayerName :: string

subsection \<open>The zip library\<close>

text \<open>
  \<^verbatim>\<open>JSZip\<close> is a library. A \<^verbatim>\<open>JSZip\<close> object is the list of its entries, name and
  content, in the order they were added; \<^verbatim>\<open>zip.file(name, data)\<close> adds an entry or
  replaces the content of the entry of that name. \<^verbatim>\<open>generateAsync\<close>, which serialises
  the entries and may reject, is a parameter.
\<close>

type_synonym JSZip = "(string \<times> string) list"

fun zip_file :: "string \<Rightarrow> string \<Rightarrow> JSZip \<Rightarrow> JSZip" where
  "zip_file name data [] = [(name, data)]"
| "zip_file name data ((n, d) # entries) =
     (if n = name then (n, data) # entries else (n, d) # zip_file name data entries)"

type_synonym generator = "JSZip \<Rightarrow> error + Uint8Array"

subsection \<open>The functions of deploy.ts\<close>

text \<open>
  \<^verbatim>\<open>deployLambda\<close> and the functions it calls. The HTTP handler \<^verbatim>\<open>deployHandler\<close>,
  which reads the bot, calls \<^verbatim>\<open>deployLambda\<close> and turns its outcome into a response, is
  not part of the model.
\<close>

definition createZipFile :: "generator \<Rightarrow> string \<Rightarrow> error + Uint8Array" where
  "createZipFile generateAsync code =
     (let jszip = [];
          jszip = zip_file ''user.js'' code jszip;
          jszip = zip_file ''index.js'' WRAPPER_CODE jszip
      in generateAsync jszip)"

text \<open>
  \<^verbatim>\<open>response.Configuration?.FunctionName === name\<close> inside \<^verbatim>\<open>try\<close>; the \<^verbatim>\<open>catch\<close>
  returns \<^verbatim>\<open>false\<close>.
\<close>

definition lambdaExists :: "'w LambdaClient \<Rightarrow> string \<Rightarrow> ('w, bool) task" where
  "lambdaExists client name =
     try_catch
       (await (send (onGetFunction client) GetFunctionCommand \<lparr>gf_FunctionName = name\<rparr>)
          (\<lambda>response.
             return ((case Configuration response of
                        None \<Rightarrow> None
                      | Some c \<Rightarrow> FunctionName c) = Some name)))
       (\<lambda>err. return False)"

text \<open>
  \<^verbatim>\<open>response.LayerVersions?.[0].LayerVersionArn\<close>: \<^verbatim>\<open>undefined\<close> when the response has
  no list; on an empty list, element 0 is \<^verbatim>\<open>undefined\<close> and reading its property
  throws.
\<close>

definition getLayerVersion :: "config \<Rightarrow> 'w LambdaClient \<Rightarrow> ('w, string option) task" where
  "getLayerVersion cfg client =
     await (send (onListLayerVersions client) ListLayerVersionsCommand
              \<lparr>LayerName = botLambdaLayerName cfg, MaxItems = 1\<rparr>)
       (\<lambda>response.
          case LayerVersions response of
            None \<Rightarrow> return None
          | Some [] \<Rightarrow> throw TypeError
          | Some (v # vs) \<Rightarrow> return (LayerVersionArn v))"

definition createLambda ::
  "config \<Rightarrow> 'w LambdaClient \<Rightarrow> string \<Rightarrow> Uint8Array \<Rightarrow> ('w, unit) task" where
  "createLambda cfg client name zipFile =
     await (getLayerVersion cfg client)
       (\<lambda>layerVersion.
          await (send (onCreateFunction client) CreateFunctionCommand
                   \<lparr>cf_FunctionName = name,
                    cf_Role = botLambdaRoleArn cfg,
                    cf_Runtime = LAMBDA_RUNTIME,
                    cf_Handler = LAMBDA_HANDLER,
                    cf_PackageType = Zip,
                    cf_Layers = [layerVersion],
                    cf_Code = \<lparr>ZipFile = zipFile\<rparr>,
                    cf_Publish = True,
                    cf_Timeout = 10\<rparr>)
            (\<lambda>_. return ()))"

text \<open>
  The condition of \<^verbatim>\<open>updateLambda\<close>. \<^verbatim>\<open>||\<close> evaluates its right operand only when the
  left one is false, and \<^verbatim>\<open>functionConfig.Layers?.[0].Arn\<close> throws on an empty list
  as above.
\<close>

definition configDiffers :: "FunctionConfiguration \<Rightarrow> string option \<Rightarrow> error + bool" where
  "configDiffers functionConfig layerVersion =
     (if Runtime functionConfig \<noteq> Some LAMBDA_RUNTIME then Inr True
      else if Handler functionConfig \<noteq> Some LAMBDA_HANDLER then Inr True
      else case Layers functionConfig of
             None \<Rightarrow> Inr (None \<noteq> layerVersion)
           | Some [] \<Rightarrow> Inl TypeError
           | Some (l # ls) \<Rightarrow> Inr (Arn l \<noteq> layerVersion))"

definition updateLambda ::
  "config \<Rightarrow> 'w LambdaClient \<Rightarrow> string \<Rightarrow> Uint8Array \<Rightarrow> ('w, unit) task" where
  "updateLambda cfg client name zipFile =
     await (getLayerVersion cfg client)
       (\<lambda>layerVersion.
          await (send (onGetFunctionConfiguration client) GetFunctionConfigurationCommand
                   \<lparr>gfc_FunctionName = name\<rparr>)
            (\<lambda>functionConfig.
               await (case configDiffers functionConfig layerVersion of
                        Inl e \<Rightarrow> throw e
                      | Inr True \<Rightarrow>
                          await (send (onUpdateFunctionConfiguration client)
                                   UpdateFunctionConfigurationCommand
                                   \<lparr>ufc_FunctionName = name,
                                    ufc_Role = botLambdaRoleArn cfg,
                                    ufc_Runtime = LAMBDA_RUNTIME,
                                    ufc_Handler = LAMBDA_HANDLER,
                                    ufc_Layers = [layerVersion],
                                    ufc_Timeout = 10\<rparr>)
                            (\<lambda>_. return ())
                      | Inr False \<Rightarrow> return ())
                 (\<lambda>_. await (send (onUpdateFunctionCode client) UpdateFunctionCodeCommand
                               \<lparr>ucc_FunctionName = name,
                                ucc_ZipFile = zipFile,
                                ucc_Publish = True\<rparr>)
                        (\<lambda>_. return ()))))"

text \<open>The two \<^verbatim>\<open>logger\<close> calls write to the log file only and are left out.\<close>

definition deployLambda ::
  "config \<Rightarrow> generator \<Rightarrow> 'w LambdaClient \<Rightarrow> string \<Rightarrow> string \<Rightarrow> ('w, unit) task" where
  "deployLambda cfg generateAsync client name code =
     await (case createZipFile generateAsync code of
              Inl e \<Rightarrow> throw e
            | Inr zipFile \<Rightarrow> return zipFile)
       (\<lambda>zipFile.
          await (lambdaExists client name)
            (\<lambda>exists.
               if \<not> exists then createLambda cfg client name zipFile
               else updateLambda cfg client name zipFile))"

subsection \<open>Reading a trace\<close>

fun is_create :: "command \<Rightarrow> bool" where
  "is_create (CreateFunctionCommand i) = True"
| "is_create c = False"

fun is_update_configuration :: "command \<Rightarrow> bool" where
  "is_update_configuration (UpdateFunctionConfigurationCommand i) = True"
| "is_update_configuration c = False"

fun is_update_code :: "command \<Rightarrow> bool" where
  "is_update_code (UpdateFunctionCodeCommand i) = True"
| "is_update_code c = False"

text \<open>The requests that a task issues when it is started in the run \<open>s\<close>.\<close>

definition issued :: "'w run \<Rightarrow> ('w, 'a) task \<Rightarrow> event list" where
  "issued s m = drop (length (snd s)) (snd (snd (m s)))"

text \<open>
  In a trace, every configuration update stands before every code update and was
  acknowledged, wherever a code update occurs.
\<close>

definition config_before_code :: "event list \<Rightarrow> bool" where
  "config_before_code t =
     (\<forall>i<length t. \<forall>j<length t.
        is_update_code (fst (t ! i)) \<longrightarrow> is_update_configuration (fst (t ! j)) \<longrightarrow>
        j < i \<and> snd (t ! j) = None)"

text \<open>
  A client for examples: it gives each command a fixed answer and counts the requests
  it has served.
\<close>

definition stub_client ::
  "error + GetFunctionCommandOutput \<Rightarrow> error + ListLayerVersionsCommandOutput \<Rightarrow>
   error + FunctionConfiguration \<Rightarrow> error + FunctionConfiguration \<Rightarrow>
   error + FunctionConfiguration \<Rightarrow> error + FunctionConfiguration \<Rightarrow> nat LambdaClient" where
  "stub_client gf llv gfc cf ufc ucc =
     \<lparr>onGetFunction = (\<lambda>i w. (gf, Suc w)),
      onListLayerVersions = (\<lambda>i w. (llv, Suc w)),
      onGetFunctionConfiguration = (\<lambda>i w. (gfc, Suc w)),
      onCreateFunction = (\<lambda>i w. (cf, Suc w)),
      onUpdateFunctionConfiguration = (\<lambda>i w. (ufc, Suc w)),
      onUpdateFunctionCode = (\<lambda>i w. (ucc, Suc w))\<rparr>"

definition example_config :: config where
  "example_config = \<lparr>botLambdaRoleArn = ''role'', botLambdaLayerName = ''layer''\<rparr>"

definition no_configuration :: FunctionConfiguration where
  "no_configuration =
     \<lparr>FunctionName = None, Runtime = None, Handler = None, Layers = None\<rparr>"

definition example_zip :: Uint8Array where
  "example_zip = [0x50, 0x4B, 0x03, 0x04]"

definition example_versions :: "error + ListLayerVersionsCommandOutput" where
  "example_versions = Inr \<lparr>LayerVersions = Some [\<lparr>LayerVersionArn = Some ''arn:layer:7''\<rparr>]\<rparr>"

definition example_function :: "string option \<Rightarrow> Layer list option \<Rightarrow> FunctionConfiguration" where
  "example_function runtime layers =
     \<lparr>FunctionName = Some ''fn-B'', Runtime = runtime, Handler = Some ''index.handler'',
      Layers = layers\<rparr>"

definition example_client ::
  "error + GetFunctionCommandOutput \<Rightarrow> error + ListLayerVersionsCommandOutput \<Rightarrow>
   error + FunctionConfiguration \<Rightarrow> nat LambdaClient" where
  "example_client gf llv gfc =
     stub_client gf llv gfc (Inr no_configuration) (Inr no_configuration) (Inr no_configuration)"

text \<open>
  A task that only adds requests at the end of the trace. Every task of the model is
  one; the proofs use this to cut the trace of a run into the traces of its steps.
\<close>

definition appends :: "('w, 'a) task \<Rightarrow> bool" where
  "appends m = (\<forall>w log. \<exists>t. snd (snd (m (w, log))) = log @ t)"

section \<open>The LRU cache\<close>

subsection \<open>The JavaScript Map\<close>

text \<open>
  A \<^verbatim>\<open>Map\<close> keeps its keys in insertion order: it is the list of its entries, oldest
  insertion first, with no key twice. \<^verbatim>\<open>set\<close> on a key that is present replaces the
  value where it stands; on a new key it appends.
\<close>

type_synonym 'v Map = "(string \<times> 'v) list"

definition Map_get :: "'v Map \<Rightarrow> string \<Rightarrow> 'v option" where
  "Map_get m key = map_of m key"

definition Map_has :: "'v Map \<Rightarrow> string \<Rightarrow> bool" where
  "Map_has m key = (key \<in> set (map fst m))"

definition Map_delete :: "'v Map \<Rightarrow> string \<Rightarrow> 'v Map" where
  "Map_delete m key = filter (\<lambda>e. fst e \<noteq> key) m"

fun Map_set :: "'v Map \<Rightarrow> string \<Rightarrow> 'v \<Rightarrow> 'v Map" where
  "Map_set [] key val = [(key, val)]"
| "Map_set ((k, v) # m) key val =
     (if k = key then (k, val) # m else (k, v) # Map_set m key val)"

definition Map_size :: "'v Map \<Rightarrow> int" where
  "Map_size m = int (length m)"

definition Map_keys :: "'v Map \<Rightarrow> string list" where
  "Map_keys m = map fst m"

subsection \<open>The class\<close>

text \<open>
  \<open>max\<close> is the field \<^verbatim>\<open>max\<close>, taken as a whole number. The truth value that
  JavaScript gives a stored value (\<^verbatim>\<open>if (item)\<close>) depends on the type \<^verbatim>\<open>T\<close>, so it
  is the parameter \<open>truthy\<close>.
\<close>

record 'v LRUCache =
  max_entries :: int
  cache :: "'v Map"

definition LRUCache_new :: "int option \<Rightarrow> 'v LRUCache" where
  "LRUCache_new mx = \<lparr>max_entries = (case mx of None \<Rightarrow> 10 | Some n \<Rightarrow> n), cache = []\<rparr>"

text \<open>\<^verbatim>\<open>this.cache.keys().next().value\<close>, which is \<^verbatim>\<open>undefined\<close> on an empty map.\<close>

definition LRUCache_first :: "'v LRUCache \<Rightarrow> string option" where
  "LRUCache_first c = (case Map_keys (cache c) of [] \<Rightarrow> None | k # ks \<Rightarrow> Some k)"

definition LRUCache_get ::
  "('v \<Rightarrow> bool) \<Rightarrow> string \<Rightarrow> 'v LRUCache \<Rightarrow> 'v option \<times> 'v LRUCache" where
  "LRUCache_get truthy key c =
     (case Map_get (cache c) key of
        None \<Rightarrow> (None, c)
      | Some item \<Rightarrow>
          if truthy item
          then (Some item, c\<lparr>cache := Map_set (Map_delete (cache c) key) key item\<rparr>)
          else (Some item, c))"

text \<open>\<^verbatim>\<open>this.cache.delete(undefined)\<close> deletes nothing.\<close>

definition LRUCache_set :: "string \<Rightarrow> 'v \<Rightarrow> 'v LRUCache \<Rightarrow> 'v LRUCache" where
  "LRUCache_set key val c =
     (let m = (if Map_has (cache c) key then Map_delete (cache c) key
               else if Map_size (cache c) \<ge> max_entries c
               then (case LRUCache_first c of
                       None \<Rightarrow> cache c
                     | Some k \<Rightarrow> Map_delete (cache c) k)
               else cache c)
      in c\<lparr>cache := Map_set m key val\<rparr>)"

subsection \<open>Histories of calls\<close>

datatype 'v call = Get string | Set string 'v

fun key_of :: "'v call \<Rightarrow> string" where
  "key_of (Get k) = k"
| "key_of (Set k v) = k"

fun apply_call :: "('v \<Rightarrow> bool) \<Rightarrow> 'v LRUCache \<Rightarrow> 'v call \<Rightarrow> 'v LRUCache" where
  "apply_call truthy c (Get k) = snd (LRUCache_get truthy k c)"
| "apply_call truthy c (Set k v) = LRUCache_set k v c"

definition after_calls :: "('v \<Rightarrow> bool) \<Rightarrow> int \<Rightarrow> 'v call list \<Rightarrow> 'v LRUCache" where
  "after_calls truthy mx calls = foldl (apply_call truthy) (LRUCache_new (Some mx)) calls"

text \<open>
  The position in the history, counted from 1, of the last call that names the key, and
  0 when no call names it. The history is read newest call first.
\<close>

fun last_use_rev :: "'v call list \<Rightarrow> string \<Rightarrow> nat" where
  "last_use_rev [] k = 0"
| "last_use_rev (c # cs) k = (if key_of c = k then Suc (length cs) else last_use_rev cs k)"

definition last_use :: "'v call list \<Rightarrow> string \<Rightarrow> nat" where
  "last_use calls k = last_use_rev (rev calls) k"

text \<open>The key, among \<open>keys\<close>, whose last use is older than that of every other.\<close>

definition least_recently_used :: "'v call list \<Rightarrow> string list \<Rightarrow> string \<Rightarrow> bool" where
  "least_recently_used calls keys k =
     (k \<in> set keys \<and> (\<forall>k' \<in> set keys. k' \<noteq> k \<longrightarrow> last_use calls k < last_use calls k'))"

fun stores_truthy :: "('v \<Rightarrow> bool) \<Rightarrow> 'v call \<Rightarrow> bool" where
  "stores_truthy truthy (Get k) = True"
| "stores_truthy truthy (Set k v) = truthy v"

text \<open>The keys are distinct and the entries are at most \<open>max\<close>.\<close>

definition well_formed :: "'v LRUCache \<Rightarrow> bool" where
  "well_formed c \<longleftrightarrow>
     distinct (Map_keys (cache c)) \<and> Map_size (cache c) \<le> max_entries c"

definition values_truthy :: "('v \<Rightarrow> bool) \<Rightarrow> 'v LRUCache \<Rightarrow> bool" where
  "values_truthy truthy c = (\<forall>e \<in> set (cache c). truthy (snd e))"

text \<open>The truth value of a JavaScript number that is not \<^verbatim>\<open>NaN\<close>.\<close>

definition truthy_number :: "int \<Rightarrow> bool" where
  "truthy_number n = (n \<noteq> 0)"

section \<open>Properties of the deployment\<close>

subsection \<open>Steps of a run\<close>

lemma send_run:
  "send handler mk input (w, log) =
     (fst (handler input w),
      (snd (handler input w), log @ [(mk input, outcome (fst (handler input w)))]))"
  by (simp add: send_def split: prod.splits)

lemma send_Inl:
  "handler input w = (Inl e, w') \<Longrightarrow>
   send handler mk input (w, log) = (Inl e, (w', log @ [(mk input, Some e)]))"
  by (simp add: send_def)

lemma send_Inr:
  "handler input w = (Inr a, w') \<Longrightarrow>
   send handler mk input (w, log) = (Inr a, (w', log @ [(mk input, None)]))"
  by (simp add: send_def)

lemma issued_append:
  "m (w, log) = (r, (w', log @ t)) \<Longrightarrow> issued (w, log) m = t"
  by (simp add: issued_def)

subsection \<open>The Packager\<close>

text \<open>
  Claim C7. For every code text, \<^verbatim>\<open>createZipFile\<close> hands the serialiser exactly two
  entries and no other: \<^verbatim>\<open>user.js\<close> with the code text as it was given, and
  \<^verbatim>\<open>index.js\<close> with the fixed wrapper text; the archive is what the serialiser makes
  of these two entries.
\<close>

theorem createZipFile_entries:
  "createZipFile generateAsync code =
     generateAsync [(''user.js'', code), (''index.js'', WRAPPER_CODE)]"
  by (simp add: createZipFile_def)

text \<open>
  Claim C9. The archive is built before any request: when packaging fails, the
  deployment fails with the packaging error, no request has been issued and the state
  of the platform is the one it started with.
\<close>

theorem deployLambda_packaging_fails:
  "createZipFile generateAsync code = Inl e \<Longrightarrow>
   deployLambda cfg generateAsync client name code s = (Inl e, s)"
  by (simp add: deployLambda_def await_def throw_def)

theorem deployLambda_packaging_fails_witness:
  "createZipFile (\<lambda>z. Inl (Thrown ''Error'' ''out of memory'')) ''exports.handler = 1''
     = Inl (Thrown ''Error'' ''out of memory'') \<and>
   deployLambda example_config (\<lambda>z. Inl (Thrown ''Error'' ''out of memory''))
     (stub_client (Inr \<lparr>Configuration = None\<rparr>) (Inr \<lparr>LayerVersions = None\<rparr>)
        (Inr no_configuration) (Inr no_configuration) (Inr no_configuration)
        (Inr no_configuration))
     ''medplum-bot-lambda-1'' ''exports.handler = 1'' (0, [])
     = (Inl (Thrown ''Error'' ''out of memory''), (0, []))"
proof -
  have h: "createZipFile (\<lambda>z. Inl (Thrown ''Error'' ''out of memory'')) ''exports.handler = 1''
             = Inl (Thrown ''Error'' ''out of memory'')"
    by (simp add: createZipFile_def)
  show ?thesis
    using h deployLambda_packaging_fails [OF h] by simp
qed

subsection \<open>The Existence Prober\<close>

text \<open>
  Claim C6. \<^verbatim>\<open>lambdaExists\<close> always returns a boolean and never throws. It issues one
  \<^verbatim>\<open>GetFunction\<close> request. The boolean is true exactly when that request succeeds
  and the response has a configuration whose function name is the queried name; it is
  false for every error the request is answered with.
\<close>

theorem lambdaExists_result:
  "lambdaExists client name (w, log) =
     (Inr (case fst (onGetFunction client \<lparr>gf_FunctionName = name\<rparr> w) of
             Inl err \<Rightarrow> False
           | Inr response \<Rightarrow>
               (case Configuration response of
                  None \<Rightarrow> False
                | Some c \<Rightarrow> FunctionName c = Some name)),
      (snd (onGetFunction client \<lparr>gf_FunctionName = name\<rparr> w),
       log @ [(GetFunctionCommand \<lparr>gf_FunctionName = name\<rparr>,
               outcome (fst (onGetFunction client \<lparr>gf_FunctionName = name\<rparr> w)))]))"
  by (simp add: lambdaExists_def try_catch_def await_def send_run return_def
      split: sum.splits option.splits)

subsection \<open>The Layer Resolver and the CREATE path\<close>

lemma getLayerVersion_fails:
  "onListLayerVersions client \<lparr>LayerName = botLambdaLayerName cfg, MaxItems = 1\<rparr> w = (Inl e, w') \<Longrightarrow>
   getLayerVersion cfg client (w, log) =
     (Inl e, (w', log @ [(ListLayerVersionsCommand
                \<lparr>LayerName = botLambdaLayerName cfg, MaxItems = 1\<rparr>, Some e)]))"
  by (simp add: getLayerVersion_def await_def send_Inl)

lemma getLayerVersion_answered:
  "onListLayerVersions client \<lparr>LayerName = botLambdaLayerName cfg, MaxItems = 1\<rparr> w
     = (Inr response, w') \<Longrightarrow>
   getLayerVersion cfg client (w, log) =
     ((case LayerVersions response of
         None \<Rightarrow> Inr None
       | Some [] \<Rightarrow> Inl TypeError
       | Some (v # vs) \<Rightarrow> Inr (LayerVersionArn v)),
      (w', log @ [(ListLayerVersionsCommand
                \<lparr>LayerName = botLambdaLayerName cfg, MaxItems = 1\<rparr>, None)]))"
  by (simp add: getLayerVersion_def await_def send_Inr return_def throw_def
      split: option.splits list.splits)

lemma getLayerVersion_log:
  "getLayerVersion cfg client (w, log) = (r, (w', log')) \<Longrightarrow>
   \<exists>out. log' = log @ [(ListLayerVersionsCommand
              \<lparr>LayerName = botLambdaLayerName cfg, MaxItems = 1\<rparr>, out)] \<and>
         (\<forall>a. r = Inr a \<longrightarrow> out = None)"
proof -
  assume g: "getLayerVersion cfg client (w, log) = (r, (w', log'))"
  obtain r0 w0 where q: "onListLayerVersions client
      \<lparr>LayerName = botLambdaLayerName cfg, MaxItems = 1\<rparr> w = (r0, w0)"
    by (metis surj_pair)
  show ?thesis
  proof (cases r0)
    case (Inl e)
    from getLayerVersion_fails [OF q [unfolded Inl], of log] g show ?thesis by auto
  next
    case (Inr response)
    from getLayerVersion_answered [OF q [unfolded Inr], of log] g show ?thesis by auto
  qed
qed

lemma createLambda_layer_fails:
  "getLayerVersion cfg client s = (Inl e, s1) \<Longrightarrow>
   createLambda cfg client name zipFile s = (Inl e, s1)"
  by (simp add: createLambda_def await_def)

lemma createLambda_run:
  "getLayerVersion cfg client s = (Inr layerVersion, (w1, log1)) \<Longrightarrow>
   input = \<lparr>cf_FunctionName = name, cf_Role = botLambdaRoleArn cfg,
            cf_Runtime = LAMBDA_RUNTIME, cf_Handler = LAMBDA_HANDLER, cf_PackageType = Zip,
            cf_Layers = [layerVersion], cf_Code = \<lparr>ZipFile = zipFile\<rparr>,
            cf_Publish = True, cf_Timeout = 10\<rparr> \<Longrightarrow>
   onCreateFunction client input w1 = (r, w2) \<Longrightarrow>
   createLambda cfg client name zipFile s =
     (map_sum id (\<lambda>_. ()) r, (w2, log1 @ [(CreateFunctionCommand input, outcome r)]))"
  by (cases r) (simp_all add: createLambda_def await_def send_Inl send_Inr return_def)

text \<open>
  Claim C8. When the layer version has been resolved, the CREATE path issues, after the
  layer query, exactly one request, a \<^verbatim>\<open>CreateFunction\<close> request that carries the
  logical name, the configured role, the fixed runtime and handler, the package type
  \<^verbatim>\<open>Zip\<close>, the resolved layer version as the only layer, the archive bytes,
  \<^verbatim>\<open>Publish\<close> true and a timeout of 10 seconds.
\<close>

theorem createLambda_request:
  assumes "getLayerVersion cfg client (w, log) = (Inr layerVersion, (w1, log1))"
  shows "issued (w, log) (createLambda cfg client name zipFile) =
           [(ListLayerVersionsCommand
               \<lparr>LayerName = botLambdaLayerName cfg, MaxItems = 1\<rparr>, None),
            (CreateFunctionCommand
               \<lparr>cf_FunctionName = name, cf_Role = botLambdaRoleArn cfg,
                cf_Runtime = LAMBDA_RUNTIME, cf_Handler = LAMBDA_HANDLER,
                cf_PackageType = Zip, cf_Layers = [layerVersion],
                cf_Code = \<lparr>ZipFile = zipFile\<rparr>, cf_Publish = True, cf_Timeout = 10\<rparr>,
             outcome (fst (onCreateFunction client
               \<lparr>cf_FunctionName = name, cf_Role = botLambdaRoleArn cfg,
                cf_Runtime = LAMBDA_RUNTIME, cf_Handler = LAMBDA_HANDLER,
                cf_PackageType = Zip, cf_Layers = [layerVersion],
                cf_Code = \<lparr>ZipFile = zipFile\<rparr>, cf_Publish = True, cf_Timeout = 10\<rparr> w1)))]"
proof -
  from getLayerVersion_log [OF assms]
  have log1: "log1 = log @ [(ListLayerVersionsCommand
              \<lparr>LayerName = botLambdaLayerName cfg, MaxItems = 1\<rparr>, None)]"
    by auto
  obtain r w2 where c: "onCreateFunction client
               \<lparr>cf_FunctionName = name, cf_Role = botLambdaRoleArn cfg,
                cf_Runtime = LAMBDA_RUNTIME, cf_Handler = LAMBDA_HANDLER,
                cf_PackageType = Zip, cf_Layers = [layerVersion],
                cf_Code = \<lparr>ZipFile = zipFile\<rparr>, cf_Publish = True, cf_Timeout = 10\<rparr> w1 = (r, w2)"
    by (metis surj_pair)
  from createLambda_run [OF assms refl c] show ?thesis
    unfolding log1 by (simp add: issued_append c)
qed

theorem createLambda_request_witness:
  "getLayerVersion example_config
     (stub_client (Inl (Thrown ''ResourceNotFoundException'' ''Function not found''))
        (Inr \<lparr>LayerVersions = Some [\<lparr>LayerVersionArn = Some ''arn:layer:7''\<rparr>]\<rparr>)
        (Inr no_configuration) (Inr no_configuration) (Inr no_configuration)
        (Inr no_configuration)) (1, [])
     = (Inr (Some ''arn:layer:7''),
        (2, [(ListLayerVersionsCommand \<lparr>LayerName = ''layer'', MaxItems = 1\<rparr>, None)])) \<and>
   issued (1, []) (createLambda example_config
     (stub_client (Inl (Thrown ''ResourceNotFoundException'' ''Function not found''))
        (Inr \<lparr>LayerVersions = Some [\<lparr>LayerVersionArn = Some ''arn:layer:7''\<rparr>]\<rparr>)
        (Inr no_configuration) (Inr no_configuration) (Inr no_configuration)
        (Inr no_configuration)) ''fn-A'' example_zip)
     = [(ListLayerVersionsCommand \<lparr>LayerName = ''layer'', MaxItems = 1\<rparr>, None),
        (CreateFunctionCommand
           \<lparr>cf_FunctionName = ''fn-A'', cf_Role = ''role'', cf_Runtime = ''nodejs16.x'',
            cf_Handler = ''index.handler'', cf_PackageType = Zip,
            cf_Layers = [Some ''arn:layer:7''], cf_Code = \<lparr>ZipFile = example_zip\<rparr>,
            cf_Publish = True, cf_Timeout = 10\<rparr>, None)]"
proof -
  have h: "getLayerVersion example_config
     (stub_client (Inl (Thrown ''ResourceNotFoundException'' ''Function not found''))
        (Inr \<lparr>LayerVersions = Some [\<lparr>LayerVersionArn = Some ''arn:layer:7''\<rparr>]\<rparr>)
        (Inr no_configuration) (Inr no_configuration) (Inr no_configuration)
        (Inr no_configuration)) (1, [])
     = (Inr (Some ''arn:layer:7''),
        (2, [(ListLayerVersionsCommand \<lparr>LayerName = ''layer'', MaxItems = 1\<rparr>, None)]))"
    by (simp add: getLayerVersion_def await_def send_def return_def stub_client_def
        example_config_def)
  show ?thesis
    using h createLambda_request [OF h, of "''fn-A''" example_zip]
    by (simp add: stub_client_def example_config_def LAMBDA_RUNTIME_def LAMBDA_HANDLER_def)
qed

subsection \<open>The UPDATE path\<close>

lemma updateLambda_layer_fails:
  "getLayerVersion cfg client s = (Inl e, s1) \<Longrightarrow>
   updateLambda cfg client name zipFile s = (Inl e, s1)"
  by (simp add: updateLambda_def await_def)

lemma updateLambda_query_fails:
  "getLayerVersion cfg client s = (Inr layerVersion, (w1, log1)) \<Longrightarrow>
   onGetFunctionConfiguration client \<lparr>gfc_FunctionName = name\<rparr> w1 = (Inl e, w2) \<Longrightarrow>
   updateLambda cfg client name zipFile s =
     (Inl e, (w2, log1 @ [(GetFunctionConfigurationCommand \<lparr>gfc_FunctionName = name\<rparr>, Some e)]))"
  by (simp add: updateLambda_def await_def send_Inl)

lemma updateLambda_compare_fails:
  "getLayerVersion cfg client s = (Inr layerVersion, (w1, log1)) \<Longrightarrow>
   onGetFunctionConfiguration client \<lparr>gfc_FunctionName = name\<rparr> w1 = (Inr functionConfig, w2) \<Longrightarrow>
   configDiffers functionConfig layerVersion = Inl e \<Longrightarrow>
   updateLambda cfg client name zipFile s =
     (Inl e, (w2, log1 @ [(GetFunctionConfigurationCommand \<lparr>gfc_FunctionName = name\<rparr>, None)]))"
  by (simp add: updateLambda_def await_def send_Inr throw_def)

lemma updateLambda_update_fails:
  "getLayerVersion cfg client s = (Inr layerVersion, (w1, log1)) \<Longrightarrow>
   onGetFunctionConfiguration client \<lparr>gfc_FunctionName = name\<rparr> w1 = (Inr functionConfig, w2) \<Longrightarrow>
   configDiffers functionConfig layerVersion = Inr True \<Longrightarrow>
   desired = \<lparr>ufc_FunctionName = name, ufc_Role = botLambdaRoleArn cfg,
              ufc_Runtime = LAMBDA_RUNTIME, ufc_Handler = LAMBDA_HANDLER,
              ufc_Layers = [layerVersion], ufc_Timeout = 10\<rparr> \<Longrightarrow>
   onUpdateFunctionConfiguration client desired w2 = (Inl e, w3) \<Longrightarrow>
   updateLambda cfg client name zipFile s =
     (Inl e, (w3, log1 @ [(GetFunctionConfigurationCommand \<lparr>gfc_FunctionName = name\<rparr>, None),
                          (UpdateFunctionConfigurationCommand desired, Some e)]))"
  by (simp add: updateLambda_def await_def send_Inr send_Inl)

lemma updateLambda_updated:
  "getLayerVersion cfg client s = (Inr layerVersion, (w1, log1)) \<Longrightarrow>
   onGetFunctionConfiguration client \<lparr>gfc_FunctionName = name\<rparr> w1 = (Inr functionConfig, w2) \<Longrightarrow>
   configDiffers functionConfig layerVersion = Inr True \<Longrightarrow>
   desired = \<lparr>ufc_FunctionName = name, ufc_Role = botLambdaRoleArn cfg,
              ufc_Runtime = LAMBDA_RUNTIME, ufc_Handler = LAMBDA_HANDLER,
              ufc_Layers = [layerVersion], ufc_Timeout = 10\<rparr> \<Longrightarrow>
   onUpdateFunctionConfiguration client desired w2 = (Inr ack, w3) \<Longrightarrow>
   code = \<lparr>ucc_FunctionName = name, ucc_ZipFile = zipFile, ucc_Publish = True\<rparr> \<Longrightarrow>
   onUpdateFunctionCode client code w3 = (r, w4) \<Longrightarrow>
   updateLambda cfg client name zipFile s =
     (map_sum id (\<lambda>_. ()) r,
      (w4, log1 @ [(GetFunctionConfigurationCommand \<lparr>gfc_FunctionName = name\<rparr>, None),
                   (UpdateFunctionConfigurationCommand desired, None),
                   (UpdateFunctionCodeCommand code, outcome r)]))"
  by (cases r) (simp_all add: updateLambda_def await_def send_Inr send_Inl return_def)

lemma updateLambda_unchanged:
  "getLayerVersion cfg client s = (Inr layerVersion, (w1, log1)) \<Longrightarrow>
   onGetFunctionConfiguration client \<lparr>gfc_FunctionName = name\<rparr> w1 = (Inr functionConfig, w2) \<Longrightarrow>
   configDiffers functionConfig layerVersion = Inr False \<Longrightarrow>
   code = \<lparr>ucc_FunctionName = name, ucc_ZipFile = zipFile, ucc_Publish = True\<rparr> \<Longrightarrow>
   onUpdateFunctionCode client code w2 = (r, w4) \<Longrightarrow>
   updateLambda cfg client name zipFile s =
     (map_sum id (\<lambda>_. ()) r,
      (w4, log1 @ [(GetFunctionConfigurationCommand \<lparr>gfc_FunctionName = name\<rparr>, None),
                   (UpdateFunctionCodeCommand code, outcome r)]))"
  by (cases r) (simp_all add: updateLambda_def await_def send_Inr send_Inl return_def)

text \<open>The traces that \<^verbatim>\<open>updateLambda\<close> can leave.\<close>

lemma updateLambda_issued:
  fixes cfg client name zipFile w log
  defines "L \<equiv> ListLayerVersionsCommand \<lparr>LayerName = botLambdaLayerName cfg, MaxItems = 1\<rparr>"
      and "G \<equiv> GetFunctionConfigurationCommand \<lparr>gfc_FunctionName = name\<rparr>"
      and "C \<equiv> UpdateFunctionCodeCommand
                 \<lparr>ucc_FunctionName = name, ucc_ZipFile = zipFile, ucc_Publish = True\<rparr>"
  shows "\<exists>o1 o2 e3 o4 d.
           issued (w, log) (updateLambda cfg client name zipFile) \<in>
             {[(L, o1)],
              [(L, None), (G, o2)],
              [(L, None), (G, None), (UpdateFunctionConfigurationCommand d, Some e3)],
              [(L, None), (G, None), (UpdateFunctionConfigurationCommand d, None), (C, o4)],
              [(L, None), (G, None), (C, o4)]}"
proof -
  obtain r1 w1 log1 where g: "getLayerVersion cfg client (w, log) = (r1, (w1, log1))"
    by (metis surj_pair)
  from getLayerVersion_log [OF g] obtain o1
    where log1: "log1 = log @ [(L, o1)]" and o1: "\<forall>a. r1 = Inr a \<longrightarrow> o1 = None"
    unfolding L_def by blast
  show ?thesis
  proof (cases r1)
    case (Inl e)
    with g have "updateLambda cfg client name zipFile (w, log) = (Inl e, (w1, log1))"
      by (simp add: updateLambda_layer_fails)
    then have "issued (w, log) (updateLambda cfg client name zipFile) = [(L, o1)]"
      unfolding log1 by (rule issued_append)
    then show ?thesis by simp
  next
    case (Inr layerVersion)
    with o1 have o1': "o1 = None" by simp
    note g' = g [unfolded Inr]
    obtain r2 w2
      where q: "onGetFunctionConfiguration client \<lparr>gfc_FunctionName = name\<rparr> w1 = (r2, w2)"
      by (metis surj_pair)
    show ?thesis
    proof (cases r2)
      case (Inl e)
      from updateLambda_query_fails [OF g' q [unfolded Inl]]
      have "issued (w, log) (updateLambda cfg client name zipFile) = [(L, None), (G, Some e)]"
        unfolding log1 o1' G_def by (simp add: issued_append)
      then show ?thesis by blast
    next
      case (Inr functionConfig)
      note q' = q [unfolded Inr]
      show ?thesis
      proof (cases "configDiffers functionConfig layerVersion")
        case (Inl e)
        from updateLambda_compare_fails [OF g' q' Inl]
        have "issued (w, log) (updateLambda cfg client name zipFile) = [(L, None), (G, None)]"
          unfolding log1 o1' G_def by (simp add: issued_append)
        then show ?thesis by blast
      next
        case (Inr differs)
        show ?thesis
        proof (cases differs)
          case False
          obtain r4 w4 where c: "onUpdateFunctionCode client
              \<lparr>ucc_FunctionName = name, ucc_ZipFile = zipFile, ucc_Publish = True\<rparr> w2 = (r4, w4)"
            by (metis surj_pair)
          from False Inr have d: "configDiffers functionConfig layerVersion = Inr False"
            by simp
          from updateLambda_unchanged [OF g' q' d refl c]
          have "issued (w, log) (updateLambda cfg client name zipFile) =
                  [(L, None), (G, None), (C, outcome r4)]"
            unfolding log1 o1' G_def C_def by (simp add: issued_append)
          then show ?thesis by blast
        next
          case True
          obtain r3 w3 where u: "onUpdateFunctionConfiguration client
              \<lparr>ufc_FunctionName = name, ufc_Role = botLambdaRoleArn cfg,
               ufc_Runtime = LAMBDA_RUNTIME, ufc_Handler = LAMBDA_HANDLER,
               ufc_Layers = [layerVersion], ufc_Timeout = 10\<rparr> w2 = (r3, w3)"
            by (metis surj_pair)
          from True Inr have d: "configDiffers functionConfig layerVersion = Inr True"
            by simp
          show ?thesis
          proof (cases r3)
            case (Inl e)
            from updateLambda_update_fails [OF g' q' d refl u [unfolded Inl]]
            have "\<exists>d. issued (w, log) (updateLambda cfg client name zipFile) =
                    [(L, None), (G, None), (UpdateFunctionConfigurationCommand d, Some e)]"
              unfolding log1 o1' G_def by (simp add: issued_append)
            then show ?thesis by blast
          next
            case (Inr ack)
            obtain r4 w4 where c: "onUpdateFunctionCode client
                \<lparr>ucc_FunctionName = name, ucc_ZipFile = zipFile, ucc_Publish = True\<rparr> w3 = (r4, w4)"
              by (metis surj_pair)
            from updateLambda_updated [OF g' q' d refl u [unfolded Inr] refl c]
            have "\<exists>d. issued (w, log) (updateLambda cfg client name zipFile) =
                    [(L, None), (G, None), (UpdateFunctionConfigurationCommand d, None),
                     (C, outcome r4)]"
              unfolding log1 o1' G_def C_def by (simp add: issued_append)
            then show ?thesis by blast
          qed
        qed
      qed
    qed
  qed
qed

text \<open>
  Claim C4. In every run of the UPDATE path, a code-update request is issued only after
  every configuration-update request of that run, and only when that request was
  acknowledged: each request is awaited before the next one is issued.
\<close>

theorem updateLambda_config_before_code:
  "config_before_code (issued (w, log) (updateLambda cfg client name zipFile))"
proof -
  from updateLambda_issued [of w log cfg client name zipFile]
  obtain o1 o2 e3 o4 d where
    "issued (w, log) (updateLambda cfg client name zipFile) \<in>
       {[(ListLayerVersionsCommand
            \<lparr>LayerName = botLambdaLayerName cfg, MaxItems = 1\<rparr>, o1)],
        [(ListLayerVersionsCommand
            \<lparr>LayerName = botLambdaLayerName cfg, MaxItems = 1\<rparr>, None),
         (GetFunctionConfigurationCommand \<lparr>gfc_FunctionName = name\<rparr>, o2)],
        [(ListLayerVersionsCommand
            \<lparr>LayerName = botLambdaLayerName cfg, MaxItems = 1\<rparr>, None),
         (GetFunctionConfigurationCommand \<lparr>gfc_FunctionName = name\<rparr>, None),
         (UpdateFunctionConfigurationCommand d, Some e3)],
        [(ListLayerVersionsCommand
            \<lparr>LayerName = botLambdaLayerName cfg, MaxItems = 1\<rparr>, None),
         (GetFunctionConfigurationCommand \<lparr>gfc_FunctionName = name\<rparr>, None),
         (UpdateFunctionConfigurationCommand d, None),
         (UpdateFunctionCodeCommand
            \<lparr>ucc_FunctionName = name, ucc_ZipFile = zipFile, ucc_Publish = True\<rparr>, o4)],
        [(ListLayerVersionsCommand
            \<lparr>LayerName = botLambdaLayerName cfg, MaxItems = 1\<rparr>, None),
         (GetFunctionConfigurationCommand \<lparr>gfc_FunctionName = name\<rparr>, None),
         (UpdateFunctionCodeCommand
            \<lparr>ucc_FunctionName = name, ucc_ZipFile = zipFile, ucc_Publish = True\<rparr>, o4)]}"
    by blast
  then show ?thesis
    unfolding config_before_code_def
    by (elim insertE emptyE) (simp_all add: All_less_Suc)
qed

theorem updateLambda_config_before_code_witness:
  "issued (1, []) (updateLambda example_config
      (stub_client (Inr \<lparr>Configuration = None\<rparr>) example_versions
         (Inr (example_function (Some ''nodejs14.x'') (Some [\<lparr>Arn = Some ''arn:layer:7''\<rparr>])))
         (Inr no_configuration) (Inr no_configuration) (Inr no_configuration))
      ''fn-B'' example_zip)
     = [(ListLayerVersionsCommand \<lparr>LayerName = ''layer'', MaxItems = 1\<rparr>, None),
        (GetFunctionConfigurationCommand \<lparr>gfc_FunctionName = ''fn-B''\<rparr>, None),
        (UpdateFunctionConfigurationCommand
           \<lparr>ufc_FunctionName = ''fn-B'', ufc_Role = ''role'', ufc_Runtime = ''nodejs16.x'',
            ufc_Handler = ''index.handler'', ufc_Layers = [Some ''arn:layer:7''],
            ufc_Timeout = 10\<rparr>, None),
        (UpdateFunctionCodeCommand
           \<lparr>ucc_FunctionName = ''fn-B'', ucc_ZipFile = example_zip, ucc_Publish = True\<rparr>, None)] \<and>
   config_before_code
     [(ListLayerVersionsCommand \<lparr>LayerName = ''layer'', MaxItems = 1\<rparr>, None),
        (GetFunctionConfigurationCommand \<lparr>gfc_FunctionName = ''fn-B''\<rparr>, None),
        (UpdateFunctionConfigurationCommand
           \<lparr>ufc_FunctionName = ''fn-B'', ufc_Role = ''role'', ufc_Runtime = ''nodejs16.x'',
            ufc_Handler = ''index.handler'', ufc_Layers = [Some ''arn:layer:7''],
            ufc_Timeout = 10\<rparr>, None),
        (UpdateFunctionCodeCommand
           \<lparr>ucc_FunctionName = ''fn-B'', ucc_ZipFile = example_zip, ucc_Publish = True\<rparr>, None)]"
proof -
  have t: "issued (1, []) (updateLambda example_config
      (stub_client (Inr \<lparr>Configuration = None\<rparr>) example_versions
         (Inr (example_function (Some ''nodejs14.x'') (Some [\<lparr>Arn = Some ''arn:layer:7''\<rparr>])))
         (Inr no_configuration) (Inr no_configuration) (Inr no_configuration))
      ''fn-B'' example_zip)
     = [(ListLayerVersionsCommand \<lparr>LayerName = ''layer'', MaxItems = 1\<rparr>, None),
        (GetFunctionConfigurationCommand \<lparr>gfc_FunctionName = ''fn-B''\<rparr>, None),
        (UpdateFunctionConfigurationCommand
           \<lparr>ufc_FunctionName = ''fn-B'', ufc_Role = ''role'', ufc_Runtime = ''nodejs16.x'',
            ufc_Handler = ''index.handler'', ufc_Layers = [Some ''arn:layer:7''],
            ufc_Timeout = 10\<rparr>, None),
        (UpdateFunctionCodeCommand
           \<lparr>ucc_FunctionName = ''fn-B'', ucc_ZipFile = example_zip, ucc_Publish = True\<rparr>, None)]"
    by (simp add: issued_def updateLambda_def getLayerVersion_def await_def send_def
        return_def stub_client_def example_config_def example_versions_def
        example_function_def configDiffers_def LAMBDA_RUNTIME_def LAMBDA_HANDLER_def)
  show ?thesis
    using t updateLambda_config_before_code [of 1 "[]" example_config
      "stub_client (Inr \<lparr>Configuration = None\<rparr>) example_versions
         (Inr (example_function (Some ''nodejs14.x'') (Some [\<lparr>Arn = Some ''arn:layer:7''\<rparr>])))
         (Inr no_configuration) (Inr no_configuration) (Inr no_configuration)"
      "''fn-B''" example_zip]
    by simp
qed

subsection \<open>Traces of composed tasks\<close>

lemma appends_return: "appends (return a)"
  by (simp add: appends_def return_def)

lemma appends_throw: "appends (throw e)"
  by (simp add: appends_def throw_def)

lemma appends_send: "appends (send handler mk input)"
  by (simp add: appends_def send_run)

lemma appends_await:
  assumes m: "appends m" and f: "\<And>a. appends (f a)"
  shows "appends (await m f)"
  unfolding appends_def
proof (intro allI)
  fix w log
  obtain r w1 log1 where ms: "m (w, log) = (r, (w1, log1))"
    by (metis surj_pair)
  from m obtain t where t: "log1 = log @ t"
    unfolding appends_def using ms by (metis snd_conv)
  show "\<exists>t. snd (snd (await m f (w, log))) = log @ t"
  proof (cases r)
    case (Inl e)
    with ms t show ?thesis by (simp add: await_def)
  next
    case (Inr a)
    from f [of a] obtain t' where "snd (snd (f a (w1, log1))) = log1 @ t'"
      unfolding appends_def by blast
    with ms t Inr show ?thesis by (simp add: await_def)
  qed
qed

lemma appends_try_catch:
  assumes m: "appends m" and h: "\<And>e. appends (h e)"
  shows "appends (try_catch m h)"
  unfolding appends_def
proof (intro allI)
  fix w log
  obtain r w1 log1 where ms: "m (w, log) = (r, (w1, log1))"
    by (metis surj_pair)
  from m obtain t where t: "log1 = log @ t"
    unfolding appends_def using ms by (metis snd_conv)
  show "\<exists>t. snd (snd (try_catch m h (w, log))) = log @ t"
  proof (cases r)
    case (Inr a)
    with ms t show ?thesis by (simp add: try_catch_def)
  next
    case (Inl e)
    from h [of e] obtain t' where "snd (snd (h e (w1, log1))) = log1 @ t'"
      unfolding appends_def by blast
    with ms t Inl show ?thesis by (simp add: try_catch_def)
  qed
qed

lemma appends_lambdaExists: "appends (lambdaExists client name)"
  unfolding lambdaExists_def
  by (intro appends_try_catch appends_await appends_send appends_return)

lemma appends_getLayerVersion: "appends (getLayerVersion cfg client)"
  unfolding getLayerVersion_def
  by (intro appends_await appends_send)
     (simp add: appends_return appends_throw split: option.splits list.splits)

lemma appends_createLambda: "appends (createLambda cfg client name zipFile)"
  unfolding createLambda_def
  by (intro appends_await appends_send appends_return appends_getLayerVersion)

lemma appends_updateLambda: "appends (updateLambda cfg client name zipFile)"
  unfolding updateLambda_def
  apply (intro appends_await appends_send appends_return appends_getLayerVersion)
  apply (simp split: sum.splits bool.splits)
  apply (intro conjI allI impI appends_throw appends_return appends_await appends_send)
  done

lemma issued_appends:
  "appends m \<Longrightarrow> snd (snd (m (w, log))) = log @ issued (w, log) m"
  unfolding appends_def issued_def
proof -
  assume "\<forall>w log. \<exists>t. snd (snd (m (w, log))) = log @ t"
  then obtain t where "snd (snd (m (w, log))) = log @ t" by blast
  then show "snd (snd (m (w, log))) = log @ drop (length (snd (w, log))) (snd (snd (m (w, log))))"
    by simp
qed

lemma issued_await:
  assumes "appends m" and "appends (f a)" and "m s = (Inr a, s1)"
  shows "issued s (await m f) = issued s m @ issued s1 (f a)"
proof -
  obtain w log where s: "s = (w, log)" by (cases s)
  obtain w1 log1 where s1: "s1 = (w1, log1)" by (cases s1)
  from issued_appends [OF assms(1), of w log] assms(3)
  have l1: "log1 = log @ issued s m" by (simp add: s s1)
  from issued_appends [OF assms(2), of w1 log1]
  have "snd (snd (f a s1)) = log1 @ issued s1 (f a)" by (simp add: s1)
  with l1 have "snd (snd (await m f s)) = log @ (issued s m @ issued s1 (f a))"
    using assms(3) by (simp add: await_def)
  then show ?thesis
    by (simp add: issued_def s)
qed

subsection \<open>The choice of the path\<close>

lemma lambdaExists_issued:
  "issued (w, log) (lambdaExists client name) =
     [(GetFunctionCommand \<lparr>gf_FunctionName = name\<rparr>,
       outcome (fst (onGetFunction client \<lparr>gf_FunctionName = name\<rparr> w)))]"
  by (simp add: issued_def lambdaExists_def try_catch_def await_def send_run return_def
      split: sum.splits)

lemma createLambda_issued:
  fixes cfg client name zipFile w log
  shows "\<exists>o1 o2 i. issued (w, log) (createLambda cfg client name zipFile) \<in>
     {[(ListLayerVersionsCommand \<lparr>LayerName = botLambdaLayerName cfg, MaxItems = 1\<rparr>, o1)],
      [(ListLayerVersionsCommand \<lparr>LayerName = botLambdaLayerName cfg, MaxItems = 1\<rparr>, None),
       (CreateFunctionCommand i, o2)]}"
proof -
  obtain r1 w1 log1 where g: "getLayerVersion cfg client (w, log) = (r1, (w1, log1))"
    by (metis surj_pair)
  from getLayerVersion_log [OF g] obtain o1
    where log1: "log1 = log @ [(ListLayerVersionsCommand
              \<lparr>LayerName = botLambdaLayerName cfg, MaxItems = 1\<rparr>, o1)]"
    by blast
  show ?thesis
  proof (cases r1)
    case (Inl e)
    with g have "createLambda cfg client name zipFile (w, log) = (Inl e, (w1, log1))"
      by (simp add: createLambda_layer_fails)
    then have "issued (w, log) (createLambda cfg client name zipFile) =
        [(ListLayerVersionsCommand \<lparr>LayerName = botLambdaLayerName cfg, MaxItems = 1\<rparr>, o1)]"
      unfolding log1 by (rule issued_append)
    then show ?thesis by simp
  next
    case (Inr layerVersion)
    with getLayerVersion_log [OF g] log1 have o1: "o1 = None" by simp
    obtain r w2 where c: "onCreateFunction client
               \<lparr>cf_FunctionName = name, cf_Role = botLambdaRoleArn cfg,
                cf_Runtime = LAMBDA_RUNTIME, cf_Handler = LAMBDA_HANDLER,
                cf_PackageType = Zip, cf_Layers = [layerVersion],
                cf_Code = \<lparr>ZipFile = zipFile\<rparr>, cf_Publish = True, cf_Timeout = 10\<rparr> w1 = (r, w2)"
      by (metis surj_pair)
    from createLambda_run [OF g [unfolded Inr] refl c]
    have "\<exists>i. issued (w, log) (createLambda cfg client name zipFile) =
        [(ListLayerVersionsCommand \<lparr>LayerName = botLambdaLayerName cfg, MaxItems = 1\<rparr>, None),
         (CreateFunctionCommand i, outcome r)]"
      unfolding log1 o1 by (simp add: issued_append)
    then show ?thesis by blast
  qed
qed

text \<open>
  Claim C2. In a deployment whose archive has been built, the Existence Prober is asked
  once and its answer alone selects the path: the rest of the run is the UPDATE path
  when it answered true and the CREATE path when it answered false, never both. So a
  run on which the prober answered true issues no create-function request, and a run on
  which it answered false issues neither a configuration update nor a code update.
\<close>

theorem deployLambda_path:
  assumes z: "createZipFile generateAsync code = Inr zipFile"
      and p: "lambdaExists client name s = (Inr exists, s1)"
  shows "deployLambda cfg generateAsync client name code s =
           (if exists then updateLambda cfg client name zipFile s1
            else createLambda cfg client name zipFile s1) \<and>
         issued s (deployLambda cfg generateAsync client name code) =
           issued s (lambdaExists client name) @
           (if exists then issued s1 (updateLambda cfg client name zipFile)
            else issued s1 (createLambda cfg client name zipFile)) \<and>
         (exists \<longrightarrow>
            \<not> list_ex (\<lambda>e. is_create (fst e))
                (issued s (deployLambda cfg generateAsync client name code))) \<and>
         (\<not> exists \<longrightarrow>
            \<not> list_ex (\<lambda>e. is_update_configuration (fst e) \<or> is_update_code (fst e))
                (issued s (deployLambda cfg generateAsync client name code)))"
proof -
  obtain w log where s: "s = (w, log)" by (cases s)
  obtain w1 log1 where s1: "s1 = (w1, log1)" by (cases s1)
  have run: "deployLambda cfg generateAsync client name code s =
           (if exists then updateLambda cfg client name zipFile s1
            else createLambda cfg client name zipFile s1)"
    using z p by (simp add: deployLambda_def await_def return_def)
  have d: "deployLambda cfg generateAsync client name code =
      await (lambdaExists client name)
        (\<lambda>exists. if \<not> exists then createLambda cfg client name zipFile
                   else updateLambda cfg client name zipFile)"
    using z by (simp add: deployLambda_def await_def return_def fun_eq_iff)
  have iss: "issued s (deployLambda cfg generateAsync client name code) =
           issued s (lambdaExists client name) @
           (if exists then issued s1 (updateLambda cfg client name zipFile)
            else issued s1 (createLambda cfg client name zipFile))"
    unfolding d
    by (subst issued_await [OF appends_lambdaExists _ p])
       (simp_all add: appends_createLambda appends_updateLambda)
  have probe: "issued s (lambdaExists client name) =
       [(GetFunctionCommand \<lparr>gf_FunctionName = name\<rparr>,
         outcome (fst (onGetFunction client \<lparr>gf_FunctionName = name\<rparr> w)))]"
    unfolding s by (rule lambdaExists_issued)
  have up: "\<not> list_ex (\<lambda>e. is_create (fst e)) (issued s1 (updateLambda cfg client name zipFile))"
    using updateLambda_issued [of w1 log1 cfg client name zipFile] unfolding s1
    by (elim exE insertE emptyE) simp_all
  have cr: "\<not> list_ex (\<lambda>e. is_update_configuration (fst e) \<or> is_update_code (fst e))
                (issued s1 (createLambda cfg client name zipFile))"
    using createLambda_issued [of w1 log1 cfg client name zipFile] unfolding s1
    by (elim exE insertE emptyE) simp_all
  show ?thesis
    using run iss probe up cr by simp
qed

subsection \<open>Reconciliation of the configuration\<close>

lemmas example_defs =
  example_client_def stub_client_def example_config_def example_versions_def
  example_function_def LAMBDA_RUNTIME_def LAMBDA_HANDLER_def

lemmas run_defs =
  issued_def updateLambda_def createLambda_def getLayerVersion_def lambdaExists_def
  configDiffers_def await_def try_catch_def send_def return_def throw_def

theorem deployLambda_path_witness:
  "createZipFile (\<lambda>z. Inr example_zip) ''exports.handler = 1'' = Inr example_zip \<and>
   lambdaExists
     (example_client (Inr \<lparr>Configuration = Some (example_function None None)\<rparr>)
        example_versions (Inr (example_function None None)))
     ''fn-B'' (0, [])
     = (Inr True, (1, [(GetFunctionCommand \<lparr>gf_FunctionName = ''fn-B''\<rparr>, None)])) \<and>
   deployLambda example_config (\<lambda>z. Inr example_zip)
     (example_client (Inr \<lparr>Configuration = Some (example_function None None)\<rparr>)
        example_versions (Inr (example_function None None)))
     ''fn-B'' ''exports.handler = 1'' (0, [])
     = updateLambda example_config
         (example_client (Inr \<lparr>Configuration = Some (example_function None None)\<rparr>)
            example_versions (Inr (example_function None None)))
         ''fn-B'' example_zip (1, [(GetFunctionCommand \<lparr>gf_FunctionName = ''fn-B''\<rparr>, None)]) \<and>
   lambdaExists
     (example_client (Inl (Thrown ''ResourceNotFoundException'' ''Function not found''))
        example_versions (Inr (example_function None None)))
     ''fn-A'' (0, [])
     = (Inr False, (1, [(GetFunctionCommand \<lparr>gf_FunctionName = ''fn-A''\<rparr>,
                        Some (Thrown ''ResourceNotFoundException'' ''Function not found''))])) \<and>
   deployLambda example_config (\<lambda>z. Inr example_zip)
     (example_client (Inl (Thrown ''ResourceNotFoundException'' ''Function not found''))
        example_versions (Inr (example_function None None)))
     ''fn-A'' ''exports.handler = 1'' (0, [])
     = createLambda example_config
         (example_client (Inl (Thrown ''ResourceNotFoundException'' ''Function not found''))
            example_versions (Inr (example_function None None)))
         ''fn-A'' example_zip
         (1, [(GetFunctionCommand \<lparr>gf_FunctionName = ''fn-A''\<rparr>,
               Some (Thrown ''ResourceNotFoundException'' ''Function not found''))])"
proof -
  have z: "createZipFile (\<lambda>z. Inr example_zip) ''exports.handler = 1'' = Inr example_zip"
    by (simp add: createZipFile_def)
  have p: "lambdaExists
     (example_client (Inr \<lparr>Configuration = Some (example_function None None)\<rparr>)
        example_versions (Inr (example_function None None)))
     ''fn-B'' (0, [])
     = (Inr True, (1, [(GetFunctionCommand \<lparr>gf_FunctionName = ''fn-B''\<rparr>, None)]))"
    by (simp add: lambdaExists_def try_catch_def await_def send_def return_def example_defs)
  have a: "lambdaExists
     (example_client (Inl (Thrown ''ResourceNotFoundException'' ''Function not found''))
        example_versions (Inr (example_function None None)))
     ''fn-A'' (0, [])
     = (Inr False, (1, [(GetFunctionCommand \<lparr>gf_FunctionName = ''fn-A''\<rparr>,
                        Some (Thrown ''ResourceNotFoundException'' ''Function not found''))]))"
    by (simp add: lambdaExists_def try_catch_def await_def send_def return_def example_defs)
  show ?thesis
    using z p a deployLambda_path [OF z p, of example_config]
      deployLambda_path [OF z a, of example_config]
    by simp
qed

text \<open>
  Claim C1: on the UPDATE path the configuration update is issued exactly when the
  current runtime, handler or first attached layer reference differs from the desired
  one. The code departs from it at this input. The function is reported with the
  desired runtime and handler and with an empty list of layers, and the latest layer
  version is \<^verbatim>\<open>arn:layer:7\<close>: the attached layer reference differs from the desired
  one. Reading \<^verbatim>\<open>functionConfig.Layers?.[0].Arn\<close> throws a \<^verbatim>\<open>TypeError\<close>, and
  \<^verbatim>\<open>updateLambda\<close> ends after the two queries without a configuration update.
\<close>

theorem updateLambda_empty_layers:
  "updateLambda example_config
     (example_client (Inr \<lparr>Configuration = Some (example_function None None)\<rparr>)
        example_versions (Inr (example_function (Some ''nodejs16.x'') (Some []))))
     ''fn-B'' example_zip (1, [])
   = (Inl TypeError,
      (3, [(ListLayerVersionsCommand \<lparr>LayerName = ''layer'', MaxItems = 1\<rparr>, None),
           (GetFunctionConfigurationCommand \<lparr>gfc_FunctionName = ''fn-B''\<rparr>, None)]))"
  by (simp add: run_defs example_defs)

text \<open>
  Claim C5: every run of the UPDATE path issues exactly one code-update request,
  whether the configuration update was issued or skipped. The code departs from it at
  the same input: every request of this run was acknowledged, and no code-update
  request was issued.
\<close>

theorem updateLambda_empty_layers_no_code_update:
  "filter (\<lambda>e. is_update_code (fst e))
     (issued (1, []) (updateLambda example_config
        (example_client (Inr \<lparr>Configuration = Some (example_function None None)\<rparr>)
           example_versions (Inr (example_function (Some ''nodejs16.x'') (Some []))))
        ''fn-B'' example_zip)) = [] \<and>
   list_all (\<lambda>e. snd e = None)
     (issued (1, []) (updateLambda example_config
        (example_client (Inr \<lparr>Configuration = Some (example_function None None)\<rparr>)
           example_versions (Inr (example_function (Some ''nodejs16.x'') (Some []))))
        ''fn-B'' example_zip))"
  by (simp add: run_defs example_defs)

text \<open>
  Wherever the comparison returns, the configuration update is issued exactly when one
  of the three values differs, and exactly one code update follows once the
  configuration update, if any, has been acknowledged. The comparison throws only at
  an empty list of layers under the desired runtime and handler.
\<close>

lemma configDiffers_Inr_iff:
  "configDiffers functionConfig layerVersion = Inr differs \<Longrightarrow>
   differs \<longleftrightarrow>
     (Runtime functionConfig \<noteq> Some LAMBDA_RUNTIME \<or>
      Handler functionConfig \<noteq> Some LAMBDA_HANDLER \<or>
      (case Layers functionConfig of None \<Rightarrow> None | Some ls \<Rightarrow> Arn (hd ls)) \<noteq> layerVersion)"
  by (auto simp: configDiffers_def split: if_splits option.splits list.splits)

lemma configDiffers_Inl_iff:
  "configDiffers functionConfig layerVersion = Inl e \<longleftrightarrow>
     e = TypeError \<and> Runtime functionConfig = Some LAMBDA_RUNTIME \<and>
     Handler functionConfig = Some LAMBDA_HANDLER \<and> Layers functionConfig = Some []"
  by (auto simp: configDiffers_def split: if_splits option.splits list.splits)

lemma updateLambda_configuration_update_iff:
  assumes g: "getLayerVersion cfg client (w, log) = (Inr layerVersion, (w1, log1))"
      and q: "onGetFunctionConfiguration client \<lparr>gfc_FunctionName = name\<rparr> w1
                = (Inr functionConfig, w2)"
      and d: "configDiffers functionConfig layerVersion = Inr differs"
  shows "filter (\<lambda>e. is_update_configuration (fst e))
           (issued (w, log) (updateLambda cfg client name zipFile)) =
         (if differs
          then [(UpdateFunctionConfigurationCommand
                   \<lparr>ufc_FunctionName = name, ufc_Role = botLambdaRoleArn cfg,
                    ufc_Runtime = LAMBDA_RUNTIME, ufc_Handler = LAMBDA_HANDLER,
                    ufc_Layers = [layerVersion], ufc_Timeout = 10\<rparr>,
                 outcome (fst (onUpdateFunctionConfiguration client
                   \<lparr>ufc_FunctionName = name, ufc_Role = botLambdaRoleArn cfg,
                    ufc_Runtime = LAMBDA_RUNTIME, ufc_Handler = LAMBDA_HANDLER,
                    ufc_Layers = [layerVersion], ufc_Timeout = 10\<rparr> w2)))]
          else [])"
proof -
  from getLayerVersion_log [OF g]
  have log1: "log1 = log @ [(ListLayerVersionsCommand
              \<lparr>LayerName = botLambdaLayerName cfg, MaxItems = 1\<rparr>, None)]"
    by auto
  show ?thesis
  proof (cases differs)
    case False
    with d have dF: "configDiffers functionConfig layerVersion = Inr False" by simp
    obtain r4 w4 where c: "onUpdateFunctionCode client
        \<lparr>ucc_FunctionName = name, ucc_ZipFile = zipFile, ucc_Publish = True\<rparr> w2 = (r4, w4)"
      by (metis surj_pair)
    from updateLambda_unchanged [OF g q dF refl c] False show ?thesis
      unfolding log1 by (simp add: issued_def)
  next
    case True
    with d have dT: "configDiffers functionConfig layerVersion = Inr True" by simp
    obtain r3 w3 where u: "onUpdateFunctionConfiguration client
        \<lparr>ufc_FunctionName = name, ufc_Role = botLambdaRoleArn cfg,
         ufc_Runtime = LAMBDA_RUNTIME, ufc_Handler = LAMBDA_HANDLER,
         ufc_Layers = [layerVersion], ufc_Timeout = 10\<rparr> w2 = (r3, w3)"
      by (metis surj_pair)
    show ?thesis
    proof (cases r3)
      case (Inl e)
      from updateLambda_update_fails [OF g q dT refl u [unfolded Inl]] True
      show ?thesis
        unfolding log1 by (simp add: issued_def u Inl)
    next
      case (Inr ack)
      obtain r4 w4 where c: "onUpdateFunctionCode client
          \<lparr>ucc_FunctionName = name, ucc_ZipFile = zipFile, ucc_Publish = True\<rparr> w3 = (r4, w4)"
        by (metis surj_pair)
      from updateLambda_updated [OF g q dT refl u [unfolded Inr] refl c] True
      show ?thesis
        unfolding log1 by (simp add: issued_def u Inr)
    qed
  qed
qed

lemma updateLambda_code_update_once:
  assumes g: "getLayerVersion cfg client (w, log) = (Inr layerVersion, (w1, log1))"
      and q: "onGetFunctionConfiguration client \<lparr>gfc_FunctionName = name\<rparr> w1
                = (Inr functionConfig, w2)"
      and d: "configDiffers functionConfig layerVersion = Inr differs"
      and u: "differs \<Longrightarrow> \<exists>ack w3. onUpdateFunctionConfiguration client
                   \<lparr>ufc_FunctionName = name, ufc_Role = botLambdaRoleArn cfg,
                    ufc_Runtime = LAMBDA_RUNTIME, ufc_Handler = LAMBDA_HANDLER,
                    ufc_Layers = [layerVersion], ufc_Timeout = 10\<rparr> w2 = (Inr ack, w3)"
  shows "\<exists>out. filter (\<lambda>e. is_update_code (fst e))
           (issued (w, log) (updateLambda cfg client name zipFile)) =
         [(UpdateFunctionCodeCommand
             \<lparr>ucc_FunctionName = name, ucc_ZipFile = zipFile, ucc_Publish = True\<rparr>, out)]"
proof -
  from getLayerVersion_log [OF g]
  have log1: "log1 = log @ [(ListLayerVersionsCommand
              \<lparr>LayerName = botLambdaLayerName cfg, MaxItems = 1\<rparr>, None)]"
    by auto
  show ?thesis
  proof (cases differs)
    case False
    with d have dF: "configDiffers functionConfig layerVersion = Inr False" by simp
    obtain r4 w4 where c: "onUpdateFunctionCode client
        \<lparr>ucc_FunctionName = name, ucc_ZipFile = zipFile, ucc_Publish = True\<rparr> w2 = (r4, w4)"
      by (metis surj_pair)
    from updateLambda_unchanged [OF g q dF refl c] show ?thesis
      unfolding log1 by (simp add: issued_def)
  next
    case True
    with d have dT: "configDiffers functionConfig layerVersion = Inr True" by simp
    from u [OF True] obtain ack w3 where u': "onUpdateFunctionConfiguration client
        \<lparr>ufc_FunctionName = name, ufc_Role = botLambdaRoleArn cfg,
         ufc_Runtime = LAMBDA_RUNTIME, ufc_Handler = LAMBDA_HANDLER,
         ufc_Layers = [layerVersion], ufc_Timeout = 10\<rparr> w2 = (Inr ack, w3)"
      by blast
    obtain r4 w4 where c: "onUpdateFunctionCode client
        \<lparr>ucc_FunctionName = name, ucc_ZipFile = zipFile, ucc_Publish = True\<rparr> w3 = (r4, w4)"
      by (metis surj_pair)
    from updateLambda_updated [OF g q dT refl u' refl c] show ?thesis
      unfolding log1 by (simp add: issued_def)
  qed
qed

subsection \<open>Failure of the Layer Resolver\<close>

text \<open>
  Claim C3 as stated fails on the kind of the error. On an empty list of versions the
  resolver fails with the \<^verbatim>\<open>TypeError\<close> of reading a property of \<^verbatim>\<open>undefined\<close>, and
  when the query fails it fails with the error of the query as it is; neither is a
  \<^verbatim>\<open>LayerResolutionError\<close>.
\<close>

theorem getLayerVersion_error_is_not_LayerResolutionError:
  "getLayerVersion example_config
     (example_client (Inr \<lparr>Configuration = None\<rparr>) (Inr \<lparr>LayerVersions = Some []\<rparr>)
        (Inr no_configuration)) (1, [])
     = (Inl TypeError,
        (2, [(ListLayerVersionsCommand \<lparr>LayerName = ''layer'', MaxItems = 1\<rparr>, None)])) \<and>
   error_name TypeError \<noteq> ''LayerResolutionError'' \<and>
   getLayerVersion example_config
     (example_client (Inr \<lparr>Configuration = None\<rparr>)
        (Inl (Thrown ''ServiceException'' ''Internal failure''))
        (Inr no_configuration)) (1, [])
     = (Inl (Thrown ''ServiceException'' ''Internal failure''),
        (2, [(ListLayerVersionsCommand \<lparr>LayerName = ''layer'', MaxItems = 1\<rparr>,
              Some (Thrown ''ServiceException'' ''Internal failure''))])) \<and>
   error_name (Thrown ''ServiceException'' ''Internal failure'') \<noteq> ''LayerResolutionError''"
  by (simp add: run_defs example_defs)

text \<open>
  Claim C3, amended. The Layer Resolver issues one \<^verbatim>\<open>ListLayerVersions\<close> request. When
  the response lists at least one version, it returns the identifier of the first one.
  When the list is empty it fails with a \<^verbatim>\<open>TypeError\<close>, and when the query fails it
  fails with the error of the query; in both cases the CREATE path and the UPDATE path
  fail with that same error, and the layer query is the only request they have issued.
\<close>

theorem getLayerVersion_first_or_fails:
  assumes q: "onListLayerVersions client
                \<lparr>LayerName = botLambdaLayerName cfg, MaxItems = 1\<rparr> w = (r, w')"
  shows "(\<forall>v vs. r = Inr \<lparr>LayerVersions = Some (v # vs)\<rparr> \<longrightarrow>
            getLayerVersion cfg client (w, log) =
              (Inr (LayerVersionArn v),
               (w', log @ [(ListLayerVersionsCommand
                    \<lparr>LayerName = botLambdaLayerName cfg, MaxItems = 1\<rparr>, None)]))) \<and>
         (\<forall>e. r = Inl e \<or> (r = Inr \<lparr>LayerVersions = Some []\<rparr> \<and> e = TypeError) \<longrightarrow>
            getLayerVersion cfg client (w, log) =
              (Inl e, (w', log @ [(ListLayerVersionsCommand
                    \<lparr>LayerName = botLambdaLayerName cfg, MaxItems = 1\<rparr>, outcome r)])) \<and>
            createLambda cfg client name zipFile (w, log) =
              (Inl e, (w', log @ [(ListLayerVersionsCommand
                    \<lparr>LayerName = botLambdaLayerName cfg, MaxItems = 1\<rparr>, outcome r)])) \<and>
            updateLambda cfg client name zipFile (w, log) =
              (Inl e, (w', log @ [(ListLayerVersionsCommand
                    \<lparr>LayerName = botLambdaLayerName cfg, MaxItems = 1\<rparr>, outcome r)])))"
proof (intro conjI allI impI)
  fix v vs
  assume "r = Inr \<lparr>LayerVersions = Some (v # vs)\<rparr>"
  with getLayerVersion_answered [OF q [unfolded this], of log]
  show "getLayerVersion cfg client (w, log) =
              (Inr (LayerVersionArn v),
               (w', log @ [(ListLayerVersionsCommand
                    \<lparr>LayerName = botLambdaLayerName cfg, MaxItems = 1\<rparr>, None)]))"
    by simp
next
  fix e
  assume a: "r = Inl e \<or> (r = Inr \<lparr>LayerVersions = Some []\<rparr> \<and> e = TypeError)"
  have g: "getLayerVersion cfg client (w, log) =
              (Inl e, (w', log @ [(ListLayerVersionsCommand
                    \<lparr>LayerName = botLambdaLayerName cfg, MaxItems = 1\<rparr>, outcome r)]))"
  proof (cases r)
    case (Inl e')
    with a have "e' = e" by simp
    with getLayerVersion_fails [OF q [unfolded Inl], of log] Inl show ?thesis by simp
  next
    case (Inr response)
    with a have "response = \<lparr>LayerVersions = Some []\<rparr>" and "e = TypeError" by simp_all
    with getLayerVersion_answered [OF q [unfolded Inr], of log] Inr show ?thesis by simp
  qed
  then show "getLayerVersion cfg client (w, log) =
              (Inl e, (w', log @ [(ListLayerVersionsCommand
                    \<lparr>LayerName = botLambdaLayerName cfg, MaxItems = 1\<rparr>, outcome r)]))" .
  from g show "createLambda cfg client name zipFile (w, log) =
              (Inl e, (w', log @ [(ListLayerVersionsCommand
                    \<lparr>LayerName = botLambdaLayerName cfg, MaxItems = 1\<rparr>, outcome r)]))"
    by (rule createLambda_layer_fails)
  from g show "updateLambda cfg client name zipFile (w, log) =
              (Inl e, (w', log @ [(ListLayerVersionsCommand
                    \<lparr>LayerName = botLambdaLayerName cfg, MaxItems = 1\<rparr>, outcome r)]))"
    by (rule updateLambda_layer_fails)
qed

theorem getLayerVersion_first_or_fails_witness:
  "getLayerVersion example_config
     (example_client (Inr \<lparr>Configuration = None\<rparr>)
        (Inr \<lparr>LayerVersions = Some [\<lparr>LayerVersionArn = Some ''arn:layer:7''\<rparr>,
                                     \<lparr>LayerVersionArn = Some ''arn:layer:6''\<rparr>]\<rparr>)
        (Inr no_configuration)) (1, [])
     = (Inr (Some ''arn:layer:7''),
        (2, [(ListLayerVersionsCommand \<lparr>LayerName = ''layer'', MaxItems = 1\<rparr>, None)])) \<and>
   createLambda example_config
     (example_client (Inr \<lparr>Configuration = None\<rparr>) (Inr \<lparr>LayerVersions = Some []\<rparr>)
        (Inr no_configuration)) ''fn-A'' example_zip (1, [])
     = (Inl TypeError,
        (2, [(ListLayerVersionsCommand \<lparr>LayerName = ''layer'', MaxItems = 1\<rparr>, None)])) \<and>
   updateLambda example_config
     (example_client (Inr \<lparr>Configuration = None\<rparr>)
        (Inl (Thrown ''ServiceException'' ''Internal failure''))
        (Inr no_configuration)) ''fn-A'' example_zip (1, [])
     = (Inl (Thrown ''ServiceException'' ''Internal failure''),
        (2, [(ListLayerVersionsCommand \<lparr>LayerName = ''layer'', MaxItems = 1\<rparr>,
              Some (Thrown ''ServiceException'' ''Internal failure''))]))"
proof -
  have q1: "onListLayerVersions
      (example_client (Inr \<lparr>Configuration = None\<rparr>)
        (Inr \<lparr>LayerVersions = Some [\<lparr>LayerVersionArn = Some ''arn:layer:7''\<rparr>,
                                     \<lparr>LayerVersionArn = Some ''arn:layer:6''\<rparr>]\<rparr>)
        (Inr no_configuration))
      \<lparr>LayerName = botLambdaLayerName example_config, MaxItems = 1\<rparr> 1
      = (Inr \<lparr>LayerVersions = Some [\<lparr>LayerVersionArn = Some ''arn:layer:7''\<rparr>,
                                     \<lparr>LayerVersionArn = Some ''arn:layer:6''\<rparr>]\<rparr>, 2)"
    by (simp add: example_defs)
  have q2: "onListLayerVersions
      (example_client (Inr \<lparr>Configuration = None\<rparr>) (Inr \<lparr>LayerVersions = Some []\<rparr>)
        (Inr no_configuration))
      \<lparr>LayerName = botLambdaLayerName example_config, MaxItems = 1\<rparr> 1
      = (Inr \<lparr>LayerVersions = Some []\<rparr>, 2)"
    by (simp add: example_defs)
  have q3: "onListLayerVersions
      (example_client (Inr \<lparr>Configuration = None\<rparr>)
        (Inl (Thrown ''ServiceException'' ''Internal failure''))
        (Inr no_configuration))
      \<lparr>LayerName = botLambdaLayerName example_config, MaxItems = 1\<rparr> 1
      = (Inl (Thrown ''ServiceException'' ''Internal failure''), 2)"
    by (simp add: example_defs)
  show ?thesis
    using getLayerVersion_first_or_fails [OF q1, of "[]"]
      getLayerVersion_first_or_fails [OF q2, of "[]" "''fn-A''" example_zip]
      getLayerVersion_first_or_fails [OF q3, of "[]" "''fn-A''" example_zip]
    by (simp add: example_config_def)
qed

section \<open>Properties of the LRU cache\<close>

subsection \<open>The keys after a call\<close>

lemma Map_keys_delete:
  "Map_keys (Map_delete m k) = filter (\<lambda>x. x \<noteq> k) (Map_keys m)"
  by (simp add: Map_keys_def Map_delete_def filter_map comp_def)

lemma Map_set_new:
  "k \<notin> set (Map_keys m) \<Longrightarrow> Map_set m k v = m @ [(k, v)]"
  by (induction m) (auto simp: Map_keys_def)

lemma Map_keys_set_new:
  "k \<notin> set (Map_keys m) \<Longrightarrow> Map_keys (Map_set m k v) = Map_keys m @ [k]"
  by (simp add: Map_set_new) (simp add: Map_keys_def)

lemma Map_keys_refresh:
  "Map_keys (Map_set (Map_delete m k) k v) = filter (\<lambda>x. x \<noteq> k) (Map_keys m) @ [k]"
  using Map_keys_set_new [of k "Map_delete m k" v] by (simp add: Map_keys_delete)

lemma Map_get_None: "Map_get m k = None \<longleftrightarrow> k \<notin> set (Map_keys m)"
  by (simp add: Map_get_def Map_keys_def map_of_eq_None_iff)

lemma Map_has_keys: "Map_has m k \<longleftrightarrow> k \<in> set (Map_keys m)"
  by (simp add: Map_has_def Map_keys_def)

lemma Map_size_keys: "Map_size m = int (length (Map_keys m))"
  by (simp add: Map_size_def Map_keys_def)

text \<open>The keys after each call.\<close>

lemma keys_get:
  "Map_keys (cache (snd (LRUCache_get truthy k c))) =
     (case Map_get (cache c) k of
        None \<Rightarrow> Map_keys (cache c)
      | Some v \<Rightarrow> if truthy v then filter (\<lambda>x. x \<noteq> k) (Map_keys (cache c)) @ [k]
                  else Map_keys (cache c))"
  by (simp add: LRUCache_get_def Map_keys_refresh split: option.splits)

lemma keys_set_present:
  "k \<in> set (Map_keys (cache c)) \<Longrightarrow>
   Map_keys (cache (LRUCache_set k v c)) = filter (\<lambda>x. x \<noteq> k) (Map_keys (cache c)) @ [k]"
  by (simp add: LRUCache_set_def Map_has_keys Map_keys_refresh)

lemma keys_set_room:
  "k \<notin> set (Map_keys (cache c)) \<Longrightarrow> Map_size (cache c) < max_entries c \<Longrightarrow>
   Map_keys (cache (LRUCache_set k v c)) = Map_keys (cache c) @ [k]"
  by (simp add: LRUCache_set_def Map_has_keys Map_keys_set_new)

lemma keys_set_full:
  assumes "k \<notin> set (Map_keys (cache c))" and "max_entries c \<le> Map_size (cache c)"
      and "distinct (Map_keys (cache c))" and "Map_keys (cache c) \<noteq> []"
  shows "Map_keys (cache (LRUCache_set k v c)) = tl (Map_keys (cache c)) @ [k]"
proof -
  from assms(4) obtain k0 ks where ks: "Map_keys (cache c) = k0 # ks"
    by (cases "Map_keys (cache c)") auto
  with assms(3) have f: "filter (\<lambda>x. x \<noteq> k0) (Map_keys (cache c)) = ks"
    by (auto simp: filter_id_conv)
  from assms(1) ks have "k \<notin> set (Map_keys (Map_delete (cache c) k0))"
    by (simp add: Map_keys_delete)
  then have "Map_keys (Map_set (Map_delete (cache c) k0) k v) = ks @ [k]"
    by (simp add: Map_keys_set_new Map_keys_delete f)
  with assms(1,2) ks show ?thesis
    by (simp add: LRUCache_set_def Map_has_keys LRUCache_first_def)
qed

lemma max_entries_get [simp]: "max_entries (snd (LRUCache_get truthy k c)) = max_entries c"
  by (simp add: LRUCache_get_def split: option.splits)

lemma max_entries_set [simp]: "max_entries (LRUCache_set k v c) = max_entries c"
  by (simp add: LRUCache_set_def Let_def)

lemma max_entries_apply [simp]: "max_entries (apply_call truthy c call) = max_entries c"
  by (cases call) simp_all

lemma after_calls_snoc:
  "after_calls truthy mx (calls @ [call]) = apply_call truthy (after_calls truthy mx calls) call"
  by (simp add: after_calls_def)

lemma max_entries_after_calls [simp]: "max_entries (after_calls truthy mx calls) = mx"
  by (induction calls rule: rev_induct)
     (simp_all add: after_calls_snoc, simp add: after_calls_def LRUCache_new_def)

lemma distinct_refresh:
  "distinct ks \<Longrightarrow> distinct (filter (\<lambda>x. x \<noteq> k) ks @ [k])"
  by simp

lemma length_refresh:
  "distinct ks \<Longrightarrow> k \<in> set ks \<Longrightarrow> length (filter (\<lambda>x. x \<noteq> k) ks @ [k]) = length ks"
proof (induction ks)
  case Nil
  then show ?case by simp
next
  case (Cons a ks)
  show ?case
  proof (cases "a = k")
    case True
    with Cons.prems have "filter (\<lambda>x. x \<noteq> k) ks = ks" by (auto simp: filter_id_conv)
    with True show ?thesis by simp
  next
    case False
    with Cons show ?thesis by simp
  qed
qed

lemma well_formed_get:
  assumes "well_formed c"
  shows "well_formed (snd (LRUCache_get truthy k c))"
proof (cases "Map_get (cache c) k")
  case None
  with assms show ?thesis by (simp add: LRUCache_get_def)
next
  case (Some v)
  then have k: "k \<in> set (Map_keys (cache c))"
    using Map_get_None [of "cache c" k] by simp
  show ?thesis
  proof (cases "truthy v")
    case False
    with Some assms show ?thesis by (simp add: LRUCache_get_def)
  next
    case True
    with Some have ks: "Map_keys (cache (snd (LRUCache_get truthy k c))) =
        filter (\<lambda>x. x \<noteq> k) (Map_keys (cache c)) @ [k]"
      by (simp add: keys_get)
    from assms have d: "distinct (Map_keys (cache c))" by (simp add: well_formed_def)
    from length_refresh [OF d k] assms show ?thesis
      unfolding well_formed_def Map_size_keys ks using d by simp
  qed
qed

lemma well_formed_set:
  assumes wf: "well_formed c" and mx: "1 \<le> max_entries c"
  shows "well_formed (LRUCache_set k v c)"
proof -
  from wf have d: "distinct (Map_keys (cache c))"
    and sz: "int (length (Map_keys (cache c))) \<le> max_entries c"
    by (simp_all add: well_formed_def Map_size_keys)
  show ?thesis
  proof (cases "k \<in> set (Map_keys (cache c))")
    case True
    from length_refresh [OF d True] d sz show ?thesis
      unfolding well_formed_def Map_size_keys keys_set_present [OF True] by simp
  next
    case False
    show ?thesis
    proof (cases "Map_size (cache c) < max_entries c")
      case True
      with d sz False show ?thesis
        unfolding well_formed_def Map_size_keys keys_set_room [OF False True] by simp
    next
      case full: False
      with mx have ne: "Map_keys (cache c) \<noteq> []" by (auto simp: Map_size_keys)
      from full have f: "max_entries c \<le> Map_size (cache c)" by simp
      from ne have "length (tl (Map_keys (cache c)) @ [k]) = length (Map_keys (cache c))"
        by simp
      moreover from d False have "distinct (tl (Map_keys (cache c)) @ [k])"
        by (auto simp: distinct_tl dest: list.set_sel(2) [OF ne])
      ultimately show ?thesis
        using sz unfolding well_formed_def Map_size_keys keys_set_full [OF False f d ne]
        by simp
    qed
  qed
qed

lemma well_formed_after_calls:
  "1 \<le> mx \<Longrightarrow> well_formed (after_calls truthy mx calls)"
proof (induction calls rule: rev_induct)
  case Nil
  then show ?case by (simp add: after_calls_def LRUCache_new_def well_formed_def
        Map_keys_def Map_size_def)
next
  case (snoc call calls)
  then have wf: "well_formed (after_calls truthy mx calls)" by simp
  show ?case
  proof (cases call)
    case (Get k)
    with well_formed_get [OF wf] show ?thesis by (simp add: after_calls_snoc)
  next
    case (Set k v)
    with well_formed_set [OF wf] snoc.prems show ?thesis by (simp add: after_calls_snoc)
  qed
qed

subsection \<open>The order of the keys is the order of last use\<close>

lemma last_use_snoc:
  "last_use (calls @ [call]) k =
     (if key_of call = k then Suc (length calls) else last_use calls k)"
  by (simp add: last_use_def)

lemma last_use_rev_le: "last_use_rev cs k \<le> length cs"
  by (induction cs) auto

lemma last_use_le: "last_use calls k \<le> length calls"
  using last_use_rev_le [of "rev calls" k] by (simp add: last_use_def)

lemma sorted_refresh:
  assumes s: "sorted_wrt (<) (map (last_use calls) ks)"
      and k: "key_of call \<notin> set ks"
  shows "sorted_wrt (<) (map (last_use (calls @ [call])) (ks @ [key_of call]))"
proof -
  from k have same: "map (last_use (calls @ [call])) ks = map (last_use calls) ks"
    by (auto simp: last_use_snoc)
  have "\<forall>x \<in> set ks. last_use calls x < Suc (length calls)"
    using last_use_le [of calls] by (simp add: less_Suc_eq_le)
  then have "\<forall>x \<in> set ks. last_use calls x < last_use (calls @ [call]) (key_of call)"
    by (simp add: last_use_snoc)
  with s show ?thesis
    unfolding map_append same by (simp add: sorted_wrt_append)
qed

lemma sorted_unused:
  assumes s: "sorted_wrt (<) (map (last_use calls) ks)"
      and k: "key_of call \<notin> set ks"
  shows "sorted_wrt (<) (map (last_use (calls @ [call])) ks)"
proof -
  from k have same: "map (last_use (calls @ [call])) ks = map (last_use calls) ks"
    by (auto simp: last_use_snoc)
  show ?thesis unfolding same by (rule s)
qed

lemma sorted_filter_keys:
  "sorted_wrt (<) (map f ks) \<Longrightarrow> sorted_wrt (<) (map f (filter P ks))"
  by (simp add: sorted_wrt_map sorted_wrt_filter)

lemma sorted_tl_keys:
  "sorted_wrt (<) (map f ks) \<Longrightarrow> sorted_wrt (<) (map f (tl ks))"
  by (cases ks) simp_all

lemma all_Map_delete:
  "\<forall>e \<in> set m. P (snd e) \<Longrightarrow> \<forall>e \<in> set (Map_delete m k). P (snd e)"
  by (simp add: Map_delete_def)

lemma all_Map_set:
  "\<forall>e \<in> set m. P (snd e) \<Longrightarrow> P v \<Longrightarrow> \<forall>e \<in> set (Map_set m k v). P (snd e)"
  by (induction m) (fastforce split: if_splits)+

lemma Map_get_in: "Map_get m k = Some v \<Longrightarrow> (k, v) \<in> set m"
  by (simp add: Map_get_def map_of_SomeD)

lemma values_truthy_get:
  assumes "values_truthy truthy c"
  shows "values_truthy truthy (snd (LRUCache_get truthy k c))"
proof (cases "Map_get (cache c) k")
  case None
  with assms show ?thesis by (simp add: LRUCache_get_def)
next
  case (Some item)
  show ?thesis
  proof (cases "truthy item")
    case False
    with Some assms show ?thesis by (simp add: LRUCache_get_def)
  next
    case True
    from assms have "\<forall>e \<in> set (cache c). truthy (snd e)"
      by (simp add: values_truthy_def)
    from all_Map_set [OF all_Map_delete [OF this] True]
    show ?thesis using Some True by (simp add: LRUCache_get_def values_truthy_def)
  qed
qed

lemma values_truthy_set:
  assumes c: "values_truthy truthy c" and v: "truthy v"
  shows "values_truthy truthy (LRUCache_set k v c)"
proof -
  from c have a: "\<forall>e \<in> set (cache c). truthy (snd e)"
    by (simp add: values_truthy_def)
  note s = all_Map_set [OF a v] all_Map_set [OF all_Map_delete [OF a] v]
  show ?thesis
    unfolding values_truthy_def LRUCache_set_def Let_def
    by (simp add: s split: option.splits)
qed

lemma recency_after_calls:
  assumes mx: "1 \<le> mx" and t: "list_all (stores_truthy truthy) calls"
  shows "sorted_wrt (<) (map (last_use calls) (Map_keys (cache (after_calls truthy mx calls)))) \<and>
         values_truthy truthy (after_calls truthy mx calls)"
  using t
proof (induction calls rule: rev_induct)
  case Nil
  show ?case
    by (simp add: after_calls_def LRUCache_new_def Map_keys_def values_truthy_def)
next
  case (snoc call calls)
  define c where "c = after_calls truthy mx calls"
  from snoc have s: "sorted_wrt (<) (map (last_use calls) (Map_keys (cache c)))"
    and vt: "values_truthy truthy c" and st: "stores_truthy truthy call"
    by (simp_all add: c_def)
  from well_formed_after_calls [OF mx, of truthy calls]
  have wf: "well_formed c" by (simp add: c_def)
  then have d: "distinct (Map_keys (cache c))" by (simp add: well_formed_def)
  have mxc: "max_entries c = mx" by (simp add: c_def)
  have step: "after_calls truthy mx (calls @ [call]) = apply_call truthy c call"
    by (simp add: after_calls_snoc c_def)
  show ?case
  proof (cases call)
    case (Get k)
    have v: "values_truthy truthy (apply_call truthy c call)"
      using values_truthy_get [OF vt] Get by simp
    show ?thesis
    proof (cases "Map_get (cache c) k")
      case None
      then have "k \<notin> set (Map_keys (cache c))" by (simp add: Map_get_None)
      with sorted_unused [OF s, of call] Get None v show ?thesis
        unfolding step by (simp add: keys_get)
    next
      case (Some item)
      with vt have "truthy item"
        unfolding values_truthy_def using Map_get_in [OF Some] by fastforce
      with Some have ks: "Map_keys (cache (apply_call truthy c call)) =
          filter (\<lambda>x. x \<noteq> k) (Map_keys (cache c)) @ [k]"
        using Get by (simp add: keys_get)
      from sorted_refresh [OF sorted_filter_keys [OF s], of call "\<lambda>x. x \<noteq> k"] Get v
      show ?thesis unfolding step ks by simp
    qed
  next
    case (Set k val)
    with st have "truthy val" by simp
    from values_truthy_set [OF vt this] Set
    have v: "values_truthy truthy (apply_call truthy c call)" by simp
    show ?thesis
    proof (cases "k \<in> set (Map_keys (cache c))")
      case True
      from sorted_refresh [OF sorted_filter_keys [OF s], of call "\<lambda>x. x \<noteq> k"] Set v
      show ?thesis unfolding step by (simp add: keys_set_present [OF True])
    next
      case False
      show ?thesis
      proof (cases "Map_size (cache c) < max_entries c")
        case True
        from sorted_refresh [OF s, of call] False Set v
        show ?thesis unfolding step by (simp add: keys_set_room [OF False True])
      next
        case full: False
        with mx mxc have ne: "Map_keys (cache c) \<noteq> []" by (auto simp: Map_size_keys)
        from full have f: "max_entries c \<le> Map_size (cache c)" by simp
        from False have "k \<notin> set (tl (Map_keys (cache c)))"
          using list.set_sel(2) [OF ne] by blast
        with sorted_refresh [OF sorted_tl_keys [OF s], of call] Set v
        show ?thesis unfolding step by (simp add: keys_set_full [OF False f d ne])
      qed
    qed
  qed
qed

lemma sorted_hd_least:
  assumes "sorted_wrt (<) (map f ks)" and "ks \<noteq> []" and "distinct ks"
  shows "\<forall>k' \<in> set ks. k' \<noteq> hd ks \<longrightarrow> f (hd ks) < f k'"
  using assms by (cases ks) auto

text \<open>
  Claim C10, amended. Let the cache be built with a whole-number capacity \<open>max \<ge> 1\<close>
  and let any sequence of \<^verbatim>\<open>get\<close> and \<^verbatim>\<open>set\<close> calls follow. Then it holds at most
  \<open>max\<close> entries. A \<^verbatim>\<open>set\<close> of a key that is stored replaces that entry, makes it the
  newest and removes no other key. A \<^verbatim>\<open>set\<close> of a key that is not stored, on a full
  cache, removes exactly one key, the oldest of the map, before it inserts the new
  one; when every value stored so far is truthy, that key is the least recently used
  one (the stored key whose last \<^verbatim>\<open>get\<close> or \<^verbatim>\<open>set\<close> is the oldest).
\<close>

theorem LRUCache_bounded_and_evicts:
  assumes mx: "1 \<le> mx" and c: "c = after_calls truthy mx calls"
  shows "Map_size (cache c) \<le> mx \<and>
         (Map_has (cache c) key \<longrightarrow>
            Map_keys (cache (LRUCache_set key val c)) =
              filter (\<lambda>k. k \<noteq> key) (Map_keys (cache c)) @ [key]) \<and>
         (\<not> Map_has (cache c) key \<and> mx \<le> Map_size (cache c) \<longrightarrow>
            Map_keys (cache (LRUCache_set key val c)) = tl (Map_keys (cache c)) @ [key] \<and>
            hd (Map_keys (cache c)) \<in> set (Map_keys (cache c)) \<and>
            hd (Map_keys (cache c)) \<notin> set (Map_keys (cache (LRUCache_set key val c))) \<and>
            (list_all (stores_truthy truthy) calls \<longrightarrow>
               least_recently_used calls (Map_keys (cache c)) (hd (Map_keys (cache c)))))"
proof -
  from well_formed_after_calls [OF mx, of truthy calls]
  have wf: "well_formed c" by (simp add: c)
  then have d: "distinct (Map_keys (cache c))" by (simp add: well_formed_def)
  have mxc: "max_entries c = mx" by (simp add: c)
  from wf have size: "Map_size (cache c) \<le> mx" by (simp add: well_formed_def mxc)
  have present: "Map_has (cache c) key \<longrightarrow>
            Map_keys (cache (LRUCache_set key val c)) =
              filter (\<lambda>k. k \<noteq> key) (Map_keys (cache c)) @ [key]"
    by (simp add: Map_has_keys keys_set_present)
  have full: "Map_keys (cache (LRUCache_set key val c)) = tl (Map_keys (cache c)) @ [key] \<and>
            hd (Map_keys (cache c)) \<in> set (Map_keys (cache c)) \<and>
            hd (Map_keys (cache c)) \<notin> set (Map_keys (cache (LRUCache_set key val c))) \<and>
            (list_all (stores_truthy truthy) calls \<longrightarrow>
               least_recently_used calls (Map_keys (cache c)) (hd (Map_keys (cache c))))"
    if new: "\<not> Map_has (cache c) key" and f: "mx \<le> Map_size (cache c)"
  proof -
    from new have k: "key \<notin> set (Map_keys (cache c))" by (simp add: Map_has_keys)
    from f mx have ne: "Map_keys (cache c) \<noteq> []" by (auto simp: Map_size_keys)
    from f have f': "max_entries c \<le> Map_size (cache c)" by (simp add: mxc)
    have ks: "Map_keys (cache (LRUCache_set key val c)) = tl (Map_keys (cache c)) @ [key]"
      by (rule keys_set_full [OF k f' d ne])
    from ne have hd_in: "hd (Map_keys (cache c)) \<in> set (Map_keys (cache c))" by simp
    from d ne have "hd (Map_keys (cache c)) \<notin> set (tl (Map_keys (cache c)))"
      by (cases "Map_keys (cache c)") auto
    with hd_in k have gone: "hd (Map_keys (cache c)) \<notin> set (Map_keys (cache (LRUCache_set key val c)))"
      unfolding ks by auto
    have lru: "least_recently_used calls (Map_keys (cache c)) (hd (Map_keys (cache c)))"
      if t: "list_all (stores_truthy truthy) calls"
    proof -
      from recency_after_calls [OF mx t]
      have "sorted_wrt (<) (map (last_use calls) (Map_keys (cache c)))" by (simp add: c)
      from sorted_hd_least [OF this ne d] hd_in show ?thesis
        by (simp add: least_recently_used_def)
    qed
    from ks hd_in gone lru show ?thesis by blast
  qed
  from size present full show ?thesis by blast
qed

subsection \<open>Examples\<close>

lemmas lru_defs =
  after_calls_def LRUCache_new_def LRUCache_set_def LRUCache_get_def LRUCache_first_def
  Map_get_def Map_has_def Map_delete_def Map_size_def Map_keys_def truthy_number_def
  least_recently_used_def last_use_def

text \<open>
  Claim C10 as stated fails for a \<^verbatim>\<open>set\<close> of a key that is already stored. The cache
  of capacity 2 holds \<^verbatim>\<open>a\<close> and \<^verbatim>\<open>b\<close> and is full, and \<^verbatim>\<open>a\<close> is its least recently
  used key; \<^verbatim>\<open>set\<close> of \<^verbatim>\<open>b\<close> replaces the entry of \<^verbatim>\<open>b\<close> and keeps \<^verbatim>\<open>a\<close>.
\<close>

theorem LRUCache_set_present_key_keeps_oldest:
  "max_entries (after_calls truthy_number 2 [Set ''a'' 1, Set ''b'' 2])
     \<le> Map_size (cache (after_calls truthy_number 2 [Set ''a'' 1, Set ''b'' 2])) \<and>
   least_recently_used [Set ''a'' 1, Set ''b'' (2::int)]
     (Map_keys (cache (after_calls truthy_number 2 [Set ''a'' 1, Set ''b'' 2]))) ''a'' \<and>
   Map_keys (cache (LRUCache_set ''b'' 3
      (after_calls truthy_number 2 [Set ''a'' 1, Set ''b'' 2]))) = [''a'', ''b'']"
  by (simp add: lru_defs)

text \<open>
  A \<^verbatim>\<open>get\<close> that finds a falsy value (\<^verbatim>\<open>if (item)\<close>) does not make its key the
  newest: after \<^verbatim>\<open>set a 0\<close>, \<^verbatim>\<open>set b 1\<close>, \<^verbatim>\<open>get a\<close> the least recently used key
  is \<^verbatim>\<open>b\<close>, and \<^verbatim>\<open>set c 1\<close> removes \<^verbatim>\<open>a\<close>.
\<close>

lemma LRUCache_get_falsy_not_refreshed:
  "least_recently_used [Set ''a'' 0, Set ''b'' 1, Get ''a'' :: int call]
     (Map_keys (cache (after_calls truthy_number 2 [Set ''a'' 0, Set ''b'' 1, Get ''a'']))) ''b'' \<and>
   Map_keys (cache (LRUCache_set ''c'' 1
      (after_calls truthy_number 2 [Set ''a'' 0, Set ''b'' 1, Get ''a'']))) = [''b'', ''c'']"
  by (simp add: lru_defs)

theorem LRUCache_bounded_and_evicts_witness:
  "(1::int) \<le> 2 \<and>
   list_all (stores_truthy truthy_number) [Set ''a'' 1, Set ''b'' 2, Get ''a''] \<and>
   after_calls truthy_number 2 [Set ''a'' 1, Set ''b'' 2, Get ''a'']
     = \<lparr>max_entries = 2, cache = [(''b'', 2), (''a'', 1)]\<rparr> \<and>
   \<not> Map_has [(''b'', 2), (''a'', 1::int)] ''c'' \<and>
   2 \<le> Map_size [(''b'', 2), (''a'', 1::int)] \<and>
   Map_keys (cache (LRUCache_set ''c'' 3 \<lparr>max_entries = 2, cache = [(''b'', 2), (''a'', 1::int)]\<rparr>))
     = [''a'', ''c''] \<and>
   least_recently_used [Set ''a'' 1, Set ''b'' 2, Get ''a'' :: int call] [''b'', ''a''] ''b'' \<and>
   Map_has [(''b'', 2), (''a'', 1::int)] ''b'' \<and>
   Map_keys (cache (LRUCache_set ''b'' 3 \<lparr>max_entries = 2, cache = [(''b'', 2), (''a'', 1::int)]\<rparr>))
     = [''a'', ''b'']"
proof -
  have c: "after_calls truthy_number 2 [Set ''a'' 1, Set ''b'' 2, Get ''a'']
     = \<lparr>max_entries = 2, cache = [(''b'', 2), (''a'', 1)]\<rparr>"
    by (simp add: lru_defs)
  have h: "(1::int) \<le> 2" by simp
  have t: "list_all (stores_truthy truthy_number) [Set ''a'' 1, Set ''b'' 2, Get ''a'']"
    by (simp add: truthy_number_def)
  have new: "\<not> Map_has [(''b'', 2), (''a'', 1::int)] ''c''"
    and full: "2 \<le> Map_size [(''b'', 2), (''a'', 1::int)]"
    and old: "Map_has [(''b'', 2), (''a'', 1::int)] ''b''"
    by (simp_all add: Map_has_def Map_size_def)
  show ?thesis
    using h t c new full old
      LRUCache_bounded_and_evicts [OF h c [symmetric], of "''c''" 3]
      LRUCache_bounded_and_evicts [OF h c [symmetric], of "''b''" 3]
    by (simp add: Map_keys_def)
qed

end
